theory Spec2Isabelle
  imports Main
begin

section \<open>The iCalendar-aware ZonedDateTime wrapper of docs/cookbook/icalendarTimeZones.mjs\<close>

text \<open>
  The class \<^verbatim>\<open>ZonedDateTime\<close> of the cookbook wraps a \<^verbatim>\<open>Temporal.ZonedDateTime\<close>
  (its private \<^verbatim>\<open>#impl\<close>) and an \<^verbatim>\<open>ICAL.Timezone\<close> (its private \<^verbatim>\<open>#timeZone\<close>).
  A JavaScript exception is a value of type \<open>error\<close> on the left of a sum; the three
  kinds the class can surface are kept apart.
\<close>

subsection \<open>Errors\<close>

datatype error = TypeError | RangeError | Error string

subsection \<open>The Temporal engine, as far as the wrapper calls it\<close>

text \<open>
  The engine (polyfill/lib) is not among the sources; only its type declarations are.
  Its tables are parameters: the time zone database, the calendars and the string
  formatters arrive through the record \<open>host\<close> below. A time zone of the engine is an
  initial UTC offset with a list of transitions (instant, offset from then on), both
  in nanoseconds, the list in ascending order of instant.
\<close>

definition nsPerDay :: int where
  "nsPerDay = 86400000000000"

definition nsMaxInstant :: int where
  "nsMaxInstant = 8640000000000000000000"

record zone_rules =
  initialOffset :: int
  transitions :: "(int \<times> int) list"

fun offsetAt :: "int \<Rightarrow> (int \<times> int) list \<Rightarrow> int \<Rightarrow> int" where
  "offsetAt cur [] t = cur"
| "offsetAt cur ((at, off) # rest) t = (if at \<le> t then offsetAt off rest t else cur)"

text \<open>Modelled from the spec: TimeZone, Instant to offset, a lookup over the rule table
  valid at that instant (section 4.4).\<close>

definition getOffsetNanosecondsFor :: "zone_rules \<Rightarrow> int \<Rightarrow> int" where
  "getOffsetNanosecondsFor z t = offsetAt (initialOffset z) (transitions z) t"

datatype overflow = Constrain | Reject

record date_fields =
  f_era :: "string option"
  f_eraYear :: "int option"
  f_year :: int
  f_month :: int
  f_monthCode :: string
  f_day :: int

text \<open>
  A calendar is a capability (spec, section 3): it decomposes a date, given as the
  number of days since 1970-01-01, into its fields, and adds years, months, weeks and
  days to a date under an overflow policy.
\<close>

record calendar_impl =
  calId :: string
  fieldsOf :: "int \<Rightarrow> date_fields"
  dateAdd :: "int \<Rightarrow> int \<Rightarrow> int \<Rightarrow> int \<Rightarrow> int \<Rightarrow> overflow \<Rightarrow> error + int"

text \<open>The slots of a \<^verbatim>\<open>Temporal.ZonedDateTime\<close>: the exact time, the zone and the calendar.\<close>

record temporal_zdt =
  epochNanoseconds :: int
  timeZoneId :: string
  zone :: zone_rules
  calendarId :: string
  cal :: calendar_impl

text \<open>
  A \<^verbatim>\<open>Temporal.PlainDateTime\<close>: the wall-clock reading, held as the nanoseconds between
  1970-01-01T00:00 and the reading on the wall clock's own time line, with its calendar.
\<close>

record plain_date_time =
  wallNs :: int
  pdtCalendarId :: string
  pdtCal :: calendar_impl

text \<open>A \<^verbatim>\<open>Temporal.Duration\<close>: ten signed fields (section 3), here the integers they hold;
  \<open>toNumber\<close> below gives the number the engine stores for an integer.\<close>

record duration =
  years :: int
  months :: int
  weeks :: int
  days :: int
  hours :: int
  minutes :: int
  seconds :: int
  milliseconds :: int
  microseconds :: int
  nanoseconds :: int

type_synonym options_bag = "(string \<times> string) list"

subsection \<open>ICAL.Timezone and the host\<close>

text \<open>
  ical.js is a third-party library: an \<^verbatim>\<open>ICAL.Timezone\<close> is its \<^verbatim>\<open>tzid\<close> and its method
  \<^verbatim>\<open>utcOffset\<close> over values \<open>'t\<close> of \<^verbatim>\<open>ICAL.Time\<close>; the methods of \<^verbatim>\<open>ICAL.Time\<close> that the
  class calls are fields of the host, next to \<^verbatim>\<open>Intl.supportedValuesOf('timeZone')\<close> and
  the engine's tables.
\<close>

record 't timezone =
  tzid :: "string option"
  utcOffset :: "'t \<Rightarrow> int"

record 't host =
  supportedValuesOf_timeZone :: "string list"
  tzdb :: "string \<Rightarrow> zone_rules option"
  calendars :: "string \<Rightarrow> calendar_impl option"
  fromUnixTime :: "int \<Rightarrow> 't"
  convertToZone :: "'t \<Rightarrow> 't timezone \<Rightarrow> 't"
  Time_toUnixTime :: "plain_date_time \<Rightarrow> 't timezone \<Rightarrow> int"
  engine_until :: "temporal_zdt \<Rightarrow> temporal_zdt \<Rightarrow> options_bag \<Rightarrow> error + duration"
  format_toString :: "temporal_zdt \<Rightarrow> options_bag option \<Rightarrow> error + string"
  format_toLocaleString :: "temporal_zdt \<Rightarrow> string option \<Rightarrow> options_bag option \<Rightarrow> error + string"

definition utc_rules :: zone_rules where
  "utc_rules = \<lparr>initialOffset = 0, transitions = []\<rparr>"

text \<open>Modelled from the spec: the engine resolves a time zone identifier against its
  database; UTC is always there, with offset 0; an unknown identifier is a range error.\<close>

definition lookupTimeZone :: "'t host \<Rightarrow> string \<Rightarrow> error + zone_rules" where
  "lookupTimeZone h ident =
     (if ident = ''UTC'' then Inr utc_rules
      else case tzdb h ident of None \<Rightarrow> Inl RangeError | Some z \<Rightarrow> Inr z)"

definition lookupCalendar :: "'t host \<Rightarrow> string \<Rightarrow> error + calendar_impl" where
  "lookupCalendar h ident =
     (case calendars h ident of None \<Rightarrow> Inl RangeError | Some c \<Rightarrow> Inr c)"

text \<open>Modelled from the spec: \<^verbatim>\<open>new Temporal.ZonedDateTime(epochNs, timeZone, calendar)\<close>;
  an Instant outside the representable range (about \<open>10^8\<close> days either side of the
  epoch) is rejected with a range error (section 3), and so are an unknown zone and an
  unknown calendar.\<close>

definition Temporal_ZonedDateTime :: "'t host \<Rightarrow> int \<Rightarrow> string \<Rightarrow> string \<Rightarrow> error + temporal_zdt" where
  "Temporal_ZonedDateTime h epochNs tz calendar =
     (if epochNs < - nsMaxInstant \<or> nsMaxInstant < epochNs then Inl RangeError
      else case lookupTimeZone h tz of
        Inl e \<Rightarrow> Inl e
      | Inr z \<Rightarrow>
         (case lookupCalendar h calendar of
            Inl e \<Rightarrow> Inl e
          | Inr c \<Rightarrow> Inr \<lparr>epochNanoseconds = epochNs, timeZoneId = tz, zone = z,
                           calendarId = calId c, cal = c\<rparr>))"

text \<open>Modelled from the spec: the offset of a ZonedDateTime is the offset its zone gives
  for its Instant, and its wall-clock reading is the Instant moved by that offset
  (sections 2 and 3).\<close>

definition Temporal_offsetNanoseconds :: "temporal_zdt \<Rightarrow> int" where
  "Temporal_offsetNanoseconds t = getOffsetNanosecondsFor (zone t) (epochNanoseconds t)"

definition Temporal_toPlainDateTime :: "temporal_zdt \<Rightarrow> plain_date_time" where
  "Temporal_toPlainDateTime t =
     \<lparr>wallNs = epochNanoseconds t + Temporal_offsetNanoseconds t,
      pdtCalendarId = calendarId t, pdtCal = cal t\<rparr>"

text \<open>Modelled from the spec: \<^verbatim>\<open>epochMilliseconds\<close>, the Instant in whole milliseconds,
  rounded towards minus infinity.\<close>

definition Temporal_epochMilliseconds :: "temporal_zdt \<Rightarrow> int" where
  "Temporal_epochMilliseconds t = epochNanoseconds t div 1000000"

text \<open>Modelled from the spec: a PlainDateTime is valid less than a day outside the range
  of Instant; \<^verbatim>\<open>PlainDateTime.prototype.add\<close> with a time-only duration moves the reading
  by that many nanoseconds and rejects a result out of range.\<close>

definition pdt_in_range :: "int \<Rightarrow> bool" where
  "pdt_in_range w = (- nsMaxInstant - nsPerDay < w \<and> w < nsMaxInstant + nsPerDay)"

definition Plain_add_nanoseconds :: "plain_date_time \<Rightarrow> int \<Rightarrow> error + plain_date_time" where
  "Plain_add_nanoseconds p n =
     (if pdt_in_range (wallNs p + n) then Inr (p\<lparr>wallNs := wallNs p + n\<rparr>) else Inl RangeError)"

text \<open>The getters of a PlainDateTime that the wrapper copies: the date fields come from
  the calendar, the time fields from the nanosecond of the day.\<close>

definition pdt_date :: "plain_date_time \<Rightarrow> date_fields" where
  "pdt_date p = fieldsOf (pdtCal p) (wallNs p div nsPerDay)"

definition pdt_hour :: "plain_date_time \<Rightarrow> int" where
  "pdt_hour p = (wallNs p mod nsPerDay) div 3600000000000"

definition pdt_minute :: "plain_date_time \<Rightarrow> int" where
  "pdt_minute p = ((wallNs p mod nsPerDay) div 60000000000) mod 60"

definition pdt_second :: "plain_date_time \<Rightarrow> int" where
  "pdt_second p = ((wallNs p mod nsPerDay) div 1000000000) mod 60"

definition pdt_millisecond :: "plain_date_time \<Rightarrow> int" where
  "pdt_millisecond p = ((wallNs p mod nsPerDay) div 1000000) mod 1000"

definition pdt_microsecond :: "plain_date_time \<Rightarrow> int" where
  "pdt_microsecond p = ((wallNs p mod nsPerDay) div 1000) mod 1000"

definition pdt_nanosecond :: "plain_date_time \<Rightarrow> int" where
  "pdt_nanosecond p = (wallNs p mod nsPerDay) mod 1000"

text \<open>Modelled from the spec: \<^verbatim>\<open>equals\<close> of the engine compares the Instant and the
  identity of time zone and calendar, by identifier (section 4.5).\<close>

definition Temporal_equals :: "temporal_zdt \<Rightarrow> temporal_zdt \<Rightarrow> bool" where
  "Temporal_equals a b =
     (epochNanoseconds a = epochNanoseconds b \<and> timeZoneId a = timeZoneId b
      \<and> calendarId a = calendarId b)"

text \<open>Modelled from the spec: the fields of a Duration share one sign; constructing a
  Duration with fields of mixed sign fails with a range error (sections 3 and 8).\<close>

definition durationFields :: "duration \<Rightarrow> int list" where
  "durationFields d =
     [years d, months d, weeks d, days d, hours d, minutes d, seconds d,
      milliseconds d, microseconds d, nanoseconds d]"

definition validDuration :: "duration \<Rightarrow> bool" where
  "validDuration d =
     (list_all (\<lambda>v. 0 \<le> v) (durationFields d) \<or> list_all (\<lambda>v. v \<le> 0) (durationFields d))"

definition Duration_from :: "duration \<Rightarrow> error + duration" where
  "Duration_from d = (if validDuration d then Inr d else Inl RangeError)"

text \<open>The time-unit part of a duration (hours to nanoseconds), in nanoseconds.\<close>

definition timeNs :: "duration \<Rightarrow> int" where
  "timeNs d =
     hours d * 3600000000000 + minutes d * 60000000000 + seconds d * 1000000000
     + milliseconds d * 1000000 + microseconds d * 1000 + nanoseconds d"

text \<open>Modelled from the spec: the time-unit part of a duration is applied as an exact
  shift of the Instant; a result outside the range of Instant is a range error.\<close>

definition Temporal_addInstant :: "temporal_zdt \<Rightarrow> int \<Rightarrow> error + temporal_zdt" where
  "Temporal_addInstant t n =
     (if epochNanoseconds t + n < - nsMaxInstant \<or> nsMaxInstant < epochNanoseconds t + n
      then Inl RangeError
      else Inr (t\<lparr>epochNanoseconds := epochNanoseconds t + n\<rparr>))"

text \<open>Modelled from the spec: wall-clock fields to Instants (section 4.4). The
  candidates are the readings taken back by each offset of the rule table; a candidate
  stands when the zone has that offset at it. None stands in a gap, two in an overlap.\<close>

definition getPossibleInstantsFor :: "zone_rules \<Rightarrow> int \<Rightarrow> int list" where
  "getPossibleInstantsFor z w =
     sort (filter (\<lambda>t. t + getOffsetNanosecondsFor z t = w)
             (map (\<lambda>off. w - off) (remdups (initialOffset z # map snd (transitions z)))))"

datatype disambiguation = Compatible | Earlier | Later | RejectAmbiguous

text \<open>Modelled from the spec and the declarations (\<^verbatim>\<open>ToInstantOptions\<close>): the policy takes
  the cases of no or two Instants to exactly one, or raises on reject; compatible is
  earlier in an overlap and later in a gap. In a gap the reading is moved by the length
  of the gap, the difference of the offsets a day after and a day before.\<close>

definition disambiguate :: "zone_rules \<Rightarrow> int \<Rightarrow> disambiguation \<Rightarrow> error + int" where
  "disambiguate z w dis =
     (case getPossibleInstantsFor z w of
        [] \<Rightarrow>
          (if dis = RejectAmbiguous then Inl RangeError
           else
             let gap = getOffsetNanosecondsFor z (w + nsPerDay) - getOffsetNanosecondsFor z (w - nsPerDay)
             in if dis = Earlier
                then (case getPossibleInstantsFor z (w - gap) of
                        [] \<Rightarrow> Inl RangeError | t # ts \<Rightarrow> Inr t)
                else (case getPossibleInstantsFor z (w + gap) of
                        [] \<Rightarrow> Inl RangeError | t # ts \<Rightarrow> Inr (last (t # ts))))
      | [t] \<Rightarrow> Inr t
      | t # ts \<Rightarrow>
          (case dis of
             Compatible \<Rightarrow> Inr t
           | Earlier \<Rightarrow> Inr t
           | Later \<Rightarrow> Inr (last (t # ts))
           | RejectAmbiguous \<Rightarrow> Inl RangeError))"

text \<open>Modelled from the spec: \<^verbatim>\<open>PlainDateTime.prototype.toZonedDateTime(tzLike, options)\<close>;
  the zone is looked up by its identifier, the reading resolved under the policy, by
  default compatible.\<close>

definition Plain_toZonedDateTime ::
  "'t host \<Rightarrow> plain_date_time \<Rightarrow> string \<Rightarrow> disambiguation option \<Rightarrow> error + temporal_zdt" where
  "Plain_toZonedDateTime h p ident options =
     (case lookupTimeZone h ident of
        Inl e \<Rightarrow> Inl e
      | Inr z \<Rightarrow>
         (case disambiguate z (wallNs p) (case options of None \<Rightarrow> Compatible | Some d \<Rightarrow> d) of
            Inl e \<Rightarrow> Inl e
          | Inr t \<Rightarrow>
             (if t < - nsMaxInstant \<or> nsMaxInstant < t then Inl RangeError
              else Inr \<lparr>epochNanoseconds = t, timeZoneId = ident, zone = z,
                        calendarId = pdtCalendarId p, cal = pdtCal p\<rparr>)))"

text \<open>Modelled from the spec: \<^verbatim>\<open>PlainDateTime.prototype.add\<close> with a calendar-unit
  duration goes through the calendar's \<^verbatim>\<open>dateAdd\<close> and keeps the time of day;
  \<^verbatim>\<open>withPlainTime\<close> keeps the date and replaces the time of day.\<close>

definition Plain_add_date ::
  "plain_date_time \<Rightarrow> int \<Rightarrow> int \<Rightarrow> int \<Rightarrow> int \<Rightarrow> overflow option \<Rightarrow> error + plain_date_time" where
  "Plain_add_date p y m w d options =
     (case dateAdd (pdtCal p) (wallNs p div nsPerDay) y m w d
             (case options of None \<Rightarrow> Constrain | Some ov \<Rightarrow> ov) of
        Inl e \<Rightarrow> Inl e
      | Inr n \<Rightarrow>
         (if pdt_in_range (n * nsPerDay + wallNs p mod nsPerDay)
          then Inr (p\<lparr>wallNs := n * nsPerDay + wallNs p mod nsPerDay\<rparr>)
          else Inl RangeError))"

definition Plain_withPlainTime :: "plain_date_time \<Rightarrow> int \<Rightarrow> plain_date_time" where
  "Plain_withPlainTime p timeOfDay = p\<lparr>wallNs := (wallNs p div nsPerDay) * nsPerDay + timeOfDay\<rparr>"

text \<open>Modelled from the spec: \<^verbatim>\<open>add\<close> of the engine (section 4.5). The calendar-unit
  part goes through PlainDateTime arithmetic from the current wall-clock reading and is
  resolved with compatible disambiguation, then the time-unit part shifts the Instant;
  a duration without calendar units works on the Instant directly (section 2).\<close>

definition Temporal_add :: "temporal_zdt \<Rightarrow> duration \<Rightarrow> overflow option \<Rightarrow> error + temporal_zdt" where
  "Temporal_add t d options =
     (if years d = 0 \<and> months d = 0 \<and> weeks d = 0 \<and> days d = 0
      then Temporal_addInstant t (timeNs d)
      else case Plain_add_date (Temporal_toPlainDateTime t) (years d) (months d) (weeks d) (days d)
                  options of
             Inl e \<Rightarrow> Inl e
           | Inr p \<Rightarrow>
              (case disambiguate (zone t) (wallNs p) Compatible of
                 Inl e \<Rightarrow> Inl e
               | Inr i \<Rightarrow>
                  (if i < - nsMaxInstant \<or> nsMaxInstant < i then Inl RangeError
                   else Temporal_addInstant (t\<lparr>epochNanoseconds := i\<rparr>) (timeNs d))))"

text \<open>Modelled from the spec and the declarations: the fields of a Duration are numeric
  (section 3), in the declarations of type \<^verbatim>\<open>number\<close>, the double of IEEE 754. An integer
  below \<open>2^53\<close> in magnitude is a number as it stands; a larger one is rounded to 53
  significant bits, to the nearest, a tie to the even one. (The magnitudes here stay far
  below \<open>2^1024\<close>, where a double overflows.) \<open>exponentOf a\<close> counts the bits of \<open>a\<close> beyond
  the 53rd.\<close>

function exponentOf :: "int \<Rightarrow> nat" where
  "exponentOf a = (if a < 9007199254740992 then 0 else Suc (exponentOf (a div 2)))"
  by pat_completeness auto
termination
  by (relation "measure nat") auto

declare exponentOf.simps [simp del]

definition toNumber :: "int \<Rightarrow> int" where
  "toNumber n =
     (if \<bar>n\<bar> < 9007199254740992 then n
      else
        let a = \<bar>n\<bar>;
            e = exponentOf a;
            q = a div 2 ^ e;
            r = a mod 2 ^ e;
            q' = (if 2 ^ e < 2 * r \<or> (2 * r = 2 ^ e \<and> odd q) then q + 1 else q)
        in sgn n * (q' * 2 ^ e))"





subsection \<open>The class ZonedDateTime\<close>

text \<open>The private members \<^verbatim>\<open>#impl\<close>, \<^verbatim>\<open>#timeZone\<close> and \<^verbatim>\<open>#isIANA\<close>, then the public
  property-bag properties.\<close>

record 't zdt_private =
  impl :: temporal_zdt
  priv_timeZone :: "'t timezone"
  isIANA :: bool

record 't ZonedDateTime = "'t zdt_private" +
  era :: "string option"
  eraYear :: "int option"
  year :: int
  month :: int
  monthCode :: string
  day :: int
  hour :: int
  minute :: int
  second :: int
  millisecond :: int
  microsecond :: int
  nanosecond :: int
  calendar :: string
  timeZone :: "string option"

text \<open>\<^verbatim>\<open>get offsetNanoseconds\<close> (lines 94 to 104).\<close>

definition offsetNanoseconds :: "'t host \<Rightarrow> ('t, 'm) zdt_private_scheme \<Rightarrow> int" where
  "offsetNanoseconds h this =
     (if isIANA this then Temporal_offsetNanoseconds (impl this)
      else
        let epochSeconds = Temporal_epochMilliseconds (impl this) div 1000;
            utcTime = fromUnixTime h epochSeconds;
            time = convertToZone h utcTime (priv_timeZone this);
            offsetSeconds = utcOffset (priv_timeZone this) time
        in offsetSeconds * 1000000000)"

text \<open>\<^verbatim>\<open>toPlainDateTime()\<close> (lines 87 to 92).\<close>

definition toPlainDateTime :: "'t host \<Rightarrow> ('t, 'm) zdt_private_scheme \<Rightarrow> error + plain_date_time" where
  "toPlainDateTime h this =
     (if isIANA this then Inr (Temporal_toPlainDateTime (impl this))
      else Plain_add_nanoseconds (Temporal_toPlainDateTime (impl this)) (offsetNanoseconds h this))"

text \<open>The constructor (lines 32 to 56). The calendar argument defaults to
  \<^verbatim>\<open>'iso8601'\<close>; \<^verbatim>\<open>includes\<close> of an undefined \<^verbatim>\<open>tzid\<close> is false.\<close>

definition new_ZonedDateTime ::
  "'t host \<Rightarrow> int \<Rightarrow> 't timezone \<Rightarrow> string option \<Rightarrow> error + 't ZonedDateTime" where
  "new_ZonedDateTime h epochNs tz calendarArg =
     (let calendar' = (case calendarArg of None \<Rightarrow> ''iso8601'' | Some c \<Rightarrow> c);
          isIANA' = (case tzid tz of None \<Rightarrow> False
                     | Some ident \<Rightarrow> ident \<in> set (supportedValuesOf_timeZone h))
      in case Temporal_ZonedDateTime h epochNs
                (if isIANA' then (case tzid tz of Some ident \<Rightarrow> ident | None \<Rightarrow> ''UTC'') else ''UTC'')
                calendar' of
           Inl e \<Rightarrow> Inl e
         | Inr impl' \<Rightarrow>
            (let priv = \<lparr>impl = impl', priv_timeZone = tz, isIANA = isIANA'\<rparr>
             in case toPlainDateTime h priv of
                  Inl e \<Rightarrow> Inl e
                | Inr pdt \<Rightarrow>
                   Inr \<lparr>impl = impl', priv_timeZone = tz, isIANA = isIANA',
                        era = f_era (pdt_date pdt),
                        eraYear = f_eraYear (pdt_date pdt),
                        year = f_year (pdt_date pdt),
                        month = f_month (pdt_date pdt),
                        monthCode = f_monthCode (pdt_date pdt),
                        day = f_day (pdt_date pdt),
                        hour = pdt_hour pdt,
                        minute = pdt_minute pdt,
                        second = pdt_second pdt,
                        millisecond = pdt_millisecond pdt,
                        microsecond = pdt_microsecond pdt,
                        nanosecond = pdt_nanosecond pdt,
                        calendar = calendar',
                        timeZone = (if isIANA' then tzid tz else None)\<rparr>))"


definition fromInstant ::
  "'t host \<Rightarrow> int \<Rightarrow> 't timezone \<Rightarrow> string option \<Rightarrow> error + 't ZonedDateTime" where
  "fromInstant h instant tz calendarArg = new_ZonedDateTime h instant tz calendarArg"

text \<open>\<^verbatim>\<open>get epochNanoseconds\<close> and \<^verbatim>\<open>toInstant()\<close>: both read the Instant of \<^verbatim>\<open>#impl\<close>.\<close>

definition get_epochNanoseconds :: "('t, 'm) zdt_private_scheme \<Rightarrow> int" where
  "get_epochNanoseconds this = epochNanoseconds (impl this)"

definition toInstant :: "('t, 'm) zdt_private_scheme \<Rightarrow> int" where
  "toInstant this = epochNanoseconds (impl this)"

text \<open>\<^verbatim>\<open>withCalendar\<close> and \<^verbatim>\<open>withTimeZone\<close> (lines 145 to 151).\<close>

definition withCalendar :: "'t host \<Rightarrow> 't ZonedDateTime \<Rightarrow> string \<Rightarrow> error + 't ZonedDateTime" where
  "withCalendar h this calendarArg =
     new_ZonedDateTime h (epochNanoseconds (impl this)) (priv_timeZone this) (Some calendarArg)"

definition withTimeZone :: "'t host \<Rightarrow> 't ZonedDateTime \<Rightarrow> 't timezone \<Rightarrow> error + 't ZonedDateTime" where
  "withTimeZone h this tz =
     new_ZonedDateTime h (epochNanoseconds (impl this)) tz (Some (calendarId (impl this)))"

text \<open>\<^verbatim>\<open>valueOf()\<close> (lines 218 to 220).\<close>

definition valueOf :: "'t ZonedDateTime \<Rightarrow> error + int" where
  "valueOf this = Inl TypeError"

text \<open>\<^verbatim>\<open>equals(other)\<close> (lines 225 to 230).\<close>

definition equals :: "'t ZonedDateTime \<Rightarrow> 't ZonedDateTime \<Rightarrow> error + bool" where
  "equals this other =
     (if isIANA this \<and> isIANA other then Inr (Temporal_equals (impl this) (impl other))
      else Inl (Error ''not implemented''))"

text \<open>\<^verbatim>\<open>toLocaleString\<close>, \<^verbatim>\<open>toString\<close> and \<^verbatim>\<open>toJSON\<close> (lines 265 to 281).\<close>

definition toLocaleString ::
  "'t host \<Rightarrow> 't ZonedDateTime \<Rightarrow> string option \<Rightarrow> options_bag option \<Rightarrow> error + string" where
  "toLocaleString h this locales options =
     (if isIANA this then format_toLocaleString h (impl this) locales options
      else Inl (Error ''not implemented''))"

definition toString :: "'t host \<Rightarrow> 't ZonedDateTime \<Rightarrow> options_bag option \<Rightarrow> error + string" where
  "toString h this options =
     (if isIANA this then format_toString h (impl this) options
      else Inl (Error ''not implemented''))"

definition toJSON :: "'t host \<Rightarrow> 't ZonedDateTime \<Rightarrow> error + string" where
  "toJSON h this = toString h this None"

text \<open>\<^verbatim>\<open>static fromPlainDateTime(pdt, timeZone, options)\<close> (lines 71 to 81). The test
  \<^verbatim>\<open>if (timeZone.tzid)\<close> holds for a defined, non-empty string.\<close>

definition fromPlainDateTime ::
  "'t host \<Rightarrow> plain_date_time \<Rightarrow> 't timezone \<Rightarrow> disambiguation option \<Rightarrow> error + 't ZonedDateTime" where
  "fromPlainDateTime h pdt tz options =
     (case tzid tz of
        Some (c # cs) \<Rightarrow>
          (case Plain_toZonedDateTime h pdt (c # cs) options of
             Inl e \<Rightarrow> Inl e
           | Inr temporalZDT \<Rightarrow>
               new_ZonedDateTime h (epochNanoseconds temporalZDT) tz (Some (pdtCalendarId pdt)))
      | _ \<Rightarrow>
          (let epochSeconds = Time_toUnixTime h pdt tz;
               epochNanoseconds' =
                 epochSeconds * 1000000000
                 + (pdt_millisecond pdt * 1000000 + pdt_microsecond pdt * 1000 + pdt_nanosecond pdt)
           in new_ZonedDateTime h epochNanoseconds' tz (Some (pdtCalendarId pdt))))"

text \<open>\<^verbatim>\<open>withPlainTime(time)\<close> (lines 140 to 143); a PlainTime is its nanosecond of the day.\<close>

definition withPlainTime :: "'t host \<Rightarrow> 't ZonedDateTime \<Rightarrow> int \<Rightarrow> error + 't ZonedDateTime" where
  "withPlainTime h this time =
     (case toPlainDateTime h this of
        Inl e \<Rightarrow> Inl e
      | Inr pdt \<Rightarrow> fromPlainDateTime h (Plain_withPlainTime pdt time) (priv_timeZone this) None)"

text \<open>\<^verbatim>\<open>add(duration, options)\<close> (lines 155 to 183). The method calls itself on the
  intermediate value with the time-unit part, which takes the first branch.\<close>

function add ::
  "'t host \<Rightarrow> 't ZonedDateTime \<Rightarrow> duration \<Rightarrow> overflow option \<Rightarrow> error + 't ZonedDateTime" where
  "add h this d options =
     (if isIANA this \<or> (years d = 0 \<and> months d = 0 \<and> weeks d = 0 \<and> days d = 0)
      then (case Temporal_add (impl this) d options of
              Inl e \<Rightarrow> Inl e
            | Inr temporalZDT \<Rightarrow>
                new_ZonedDateTime h (epochNanoseconds temporalZDT) (priv_timeZone this)
                  (Some (calendarId (impl this))))
      else (case toPlainDateTime h this of
              Inl e \<Rightarrow> Inl e
            | Inr p0 \<Rightarrow>
               (case Plain_add_date p0 (years d) (months d) (weeks d) (days d) options of
                  Inl e \<Rightarrow> Inl e
                | Inr pdt \<Rightarrow>
                   (case fromPlainDateTime h pdt (priv_timeZone this) (Some Compatible) of
                      Inl e \<Rightarrow> Inl e
                    | Inr intermediate \<Rightarrow>
                       (case Duration_from
                               \<lparr>years = 0, months = 0, weeks = 0, days = 0,
                                hours = hours d, minutes = minutes d, seconds = seconds d,
                                milliseconds = milliseconds d, microseconds = microseconds d,
                                nanoseconds = nanoseconds d\<rparr> of
                          Inl e \<Rightarrow> Inl e
                        | Inr timePart \<Rightarrow> add h intermediate timePart None)))))"
  by pat_completeness auto
termination
  by (relation "measure (\<lambda>(h, this, d, options).
        if years d = 0 \<and> months d = 0 \<and> weeks d = 0 \<and> days d = 0 then 0 else 1)")
     (auto simp: Duration_from_def split: if_splits)

declare add.simps [simp del]


text \<open>\<^verbatim>\<open>startOfDay()\<close> (lines 198 to 204); \<^verbatim>\<open>Temporal.PlainTime.from('00:00')\<close> is
  nanosecond 0 of the day.\<close>

definition startOfDay :: "'t host \<Rightarrow> 't ZonedDateTime \<Rightarrow> error + 't ZonedDateTime" where
  "startOfDay h this =
     (case toPlainDateTime h this of
        Inl e \<Rightarrow> Inl e
      | Inr pdt \<Rightarrow>
         (let midnight = 0
          in fromPlainDateTime h (Plain_withPlainTime pdt midnight) (priv_timeZone this)
               (Some Compatible)))"

text \<open>
  The two phases of \<^verbatim>\<open>add\<close> in the words of the spec (section 4.5), to compare the method
  with: \<open>instantShift\<close> is the exact shift of the Instant by a number of nanoseconds;
  \<open>add_two_phase\<close> applies the calendar units to the wall-clock reading, resolves the
  result with compatible disambiguation to an intermediate value, then shifts its Instant
  by the time units; a duration without calendar units has no first phase.
  \<open>add_time_first\<close> is the two phases in the other order.
\<close>

definition instantShift :: "'t host \<Rightarrow> 't ZonedDateTime \<Rightarrow> int \<Rightarrow> error + 't ZonedDateTime" where
  "instantShift h z n =
     (case Temporal_addInstant (impl z) n of
        Inl e \<Rightarrow> Inl e
      | Inr t \<Rightarrow>
          new_ZonedDateTime h (epochNanoseconds t) (priv_timeZone z) (Some (calendarId (impl z))))"

definition calendarPhase ::
  "'t host \<Rightarrow> 't ZonedDateTime \<Rightarrow> duration \<Rightarrow> overflow option \<Rightarrow> error + 't ZonedDateTime" where
  "calendarPhase h z d options =
     (case toPlainDateTime h z of
        Inl e \<Rightarrow> Inl e
      | Inr p0 \<Rightarrow>
         (case Plain_add_date p0 (years d) (months d) (weeks d) (days d) options of
            Inl e \<Rightarrow> Inl e
          | Inr pdt \<Rightarrow> fromPlainDateTime h pdt (priv_timeZone z) (Some Compatible)))"

definition add_two_phase ::
  "'t host \<Rightarrow> 't ZonedDateTime \<Rightarrow> duration \<Rightarrow> overflow option \<Rightarrow> error + 't ZonedDateTime" where
  "add_two_phase h z d options =
     (if years d = 0 \<and> months d = 0 \<and> weeks d = 0 \<and> days d = 0
      then instantShift h z (timeNs d)
      else case calendarPhase h z d options of
             Inl e \<Rightarrow> Inl e
           | Inr intermediate \<Rightarrow> instantShift h intermediate (timeNs d))"

definition add_time_first ::
  "'t host \<Rightarrow> 't ZonedDateTime \<Rightarrow> duration \<Rightarrow> overflow option \<Rightarrow> error + 't ZonedDateTime" where
  "add_time_first h z d options =
     (case instantShift h z (timeNs d) of
        Inl e \<Rightarrow> Inl e
      | Inr shifted \<Rightarrow> calendarPhase h shifted d options)"

subsection \<open>A host to run the class on\<close>

text \<open>Modelled from the spec: the ISO 8601 calendar, the proleptic Gregorian rules on
  day numbers counted from 1970-01-01; it has no eras, and its month code is the month
  number.\<close>

definition civil_from_days :: "int \<Rightarrow> int \<times> int \<times> int" where
  "civil_from_days n =
     (let z = n + 719468;
          e = z div 146097;
          doe = z mod 146097;
          yoe = (doe - doe div 1460 + doe div 36524 - doe div 146096) div 365;
          doy = doe - (365 * yoe + yoe div 4 - yoe div 100);
          mp = (5 * doy + 2) div 153;
          d = doy - (153 * mp + 2) div 5 + 1;
          m = (if mp < 10 then mp + 3 else mp - 9)
      in (if m \<le> 2 then yoe + e * 400 + 1 else yoe + e * 400, m, d))"

definition days_from_civil :: "int \<Rightarrow> int \<Rightarrow> int \<Rightarrow> int" where
  "days_from_civil y m d =
     (let y' = (if m \<le> 2 then y - 1 else y);
          e = y' div 400;
          yoe = y' mod 400;
          doy = (153 * (if m > 2 then m - 3 else m + 9) + 2) div 5 + d - 1;
          doe = yoe * 365 + yoe div 4 - yoe div 100 + doy
      in e * 146097 + doe - 719468)"

definition isoDaysInMonth :: "int \<Rightarrow> int \<Rightarrow> int" where
  "isoDaysInMonth y m =
     (if m = 2 then (if y mod 4 = 0 \<and> (y mod 100 \<noteq> 0 \<or> y mod 400 = 0) then 29 else 28)
      else if m = 4 \<or> m = 6 \<or> m = 9 \<or> m = 11 then 30 else 31)"

definition isoMonthCode :: "int \<Rightarrow> string" where
  "isoMonthCode m =
     [''M01'', ''M02'', ''M03'', ''M04'', ''M05'', ''M06'',
      ''M07'', ''M08'', ''M09'', ''M10'', ''M11'', ''M12''] ! nat (m - 1)"

definition isoFieldsOf :: "int \<Rightarrow> date_fields" where
  "isoFieldsOf n =
     (case civil_from_days n of
        (y, m, d) \<Rightarrow> \<lparr>f_era = None, f_eraYear = None, f_year = y, f_month = m,
                      f_monthCode = isoMonthCode m, f_day = d\<rparr>)"

text \<open>Modelled from the spec: \<^verbatim>\<open>dateAdd\<close> adds years and months to the year and month,
  then applies the overflow policy to the day (constrain clamps it to the length of the
  month, reject raises), then adds weeks and days (section 4.3).\<close>

definition isoDateAdd :: "int \<Rightarrow> int \<Rightarrow> int \<Rightarrow> int \<Rightarrow> int \<Rightarrow> overflow \<Rightarrow> error + int" where
  "isoDateAdd n ys ms ws ds ov =
     (case civil_from_days n of
        (y, m, d) \<Rightarrow>
          (let ym = y * 12 + (m - 1) + ys * 12 + ms;
               y2 = ym div 12;
               m2 = ym mod 12 + 1;
               dim = isoDaysInMonth y2 m2
           in if d > dim \<and> ov = Reject then Inl RangeError
              else Inr (days_from_civil y2 m2 (if d > dim then dim else d) + 7 * ws + ds)))"

definition iso8601 :: calendar_impl where
  "iso8601 = \<lparr>calId = ''iso8601'', fieldsOf = isoFieldsOf, dateAdd = isoDateAdd\<rparr>"

text \<open>Modelled from the spec: an era-based calendar as a plug-in (section 1). The
  Gregorian calendar has the ISO dates, with the eras \<^verbatim>\<open>ce\<close> and \<^verbatim>\<open>bce\<close>.\<close>

definition gregoryFieldsOf :: "int \<Rightarrow> date_fields" where
  "gregoryFieldsOf n =
     (let f = isoFieldsOf n
      in f\<lparr>f_era := Some (if 1 \<le> f_year f then ''ce'' else ''bce''),
           f_eraYear := Some (if 1 \<le> f_year f then f_year f else 1 - f_year f)\<rparr>)"

definition gregory :: calendar_impl where
  "gregory = \<lparr>calId = ''gregory'', fieldsOf = gregoryFieldsOf, dateAdd = isoDateAdd\<rparr>"

text \<open>The rules of America/Los_Angeles for 2012 and 2013: standard time at -08:00,
  daylight time at -07:00 from 2012-03-11T10:00Z to 2012-11-04T09:00Z and from
  2013-03-10T10:00Z to 2013-11-03T09:00Z.\<close>

definition los_angeles :: zone_rules where
  "los_angeles =
     \<lparr>initialOffset = - 28800000000000,
      transitions = [(1331460000000000000, - 25200000000000),
                     (1352019600000000000, - 28800000000000),
                     (1362909600000000000, - 25200000000000),
                     (1383469200000000000, - 28800000000000)]\<rparr>"

text \<open>The \<^verbatim>\<open>ICAL.Timezone\<close> objects of the three events of the script. An \<^verbatim>\<open>ICAL.Time\<close> is
  held as the seconds its wall-clock reading is away from 1970-01-01T00:00, and
  \<^verbatim>\<open>utcOffset\<close> answers for a local time (spec, section 4.4). The first object carries an
  IANA name; in 2012 its local times from 02:00 on 11 March to 02:00 on 4 November are at
  -07:00. The second is the fixed -07:00 zone of Microsoft Exchange, under the \<^verbatim>\<open>TZID\<close> of
  its \<^verbatim>\<open>VTIMEZONE\<close> component; the component starts on 1601-01-01 (line 340), and the
  object answers 0 for an earlier time. The third (lines 396 to 410) has the rules of
  the first, second Sunday of March and first Sunday of November at 02:00, under the
  \<^verbatim>\<open>TZID\<close> Pacific Standard Time, which is not an IANA name.\<close>

definition icalLosAngeles :: "int timezone" where
  "icalLosAngeles =
     \<lparr>tzid = Some ''America/Los_Angeles'',
      utcOffset = (\<lambda>t. if 1331431200 \<le> t \<and> t < 1351994400 then - 25200 else - 28800)\<rparr>"

definition usMountainStandardTime :: "int timezone" where
  "usMountainStandardTime =
     \<lparr>tzid = Some ''US Mountain Standard Time'',
      utcOffset = (\<lambda>t. if t < - 11644473600 then 0 else - 25200)\<rparr>"

definition pacificStandardTime :: "int timezone" where
  "pacificStandardTime =
     \<lparr>tzid = Some ''Pacific Standard Time'',
      utcOffset = (\<lambda>t. if 1331431200 \<le> t \<and> t < 1351994400 then - 25200 else - 28800)\<rparr>"

text \<open>The \<^verbatim>\<open>VTIMEZONE\<close> of the third event on the time line: daylight time begins on the
  second Sunday of March at 02:00 local time at -08:00, standard time on the first
  Sunday of November at 02:00 local time at -07:00. For 2012 and 2013 these are the
  Instants 2012-03-11T10:00Z, 2012-11-04T09:00Z, 2013-03-10T10:00Z and 2013-11-03T09:00Z,
  the transitions of America/Los_Angeles.\<close>

definition pacificRules :: zone_rules where
  "pacificRules =
     \<lparr>initialOffset = - 28800000000000,
      transitions = [(1331460000000000000, - 25200000000000),
                     (1352019600000000000, - 28800000000000),
                     (1362909600000000000, - 25200000000000),
                     (1383469200000000000, - 28800000000000)]\<rparr>"

text \<open>
  A sample host. Converting a UTC time to a zone follows ical.js: the time is moved by
  the offset the zone answers for the UTC reading, taken as if it were a local one.
  The formatter is a stand-in that prints the zone in brackets.
\<close>

definition sampleHost :: "int host" where
  "sampleHost =
     \<lparr>supportedValuesOf_timeZone = [''America/Los_Angeles'', ''Europe/Berlin''],
      tzdb = (\<lambda>ident. if ident = ''America/Los_Angeles'' then Some los_angeles else None),
      calendars = (\<lambda>ident. if ident = ''iso8601'' then Some iso8601
                            else if ident = ''gregory'' then Some gregory else None),
      fromUnixTime = (\<lambda>s. s),
      convertToZone = (\<lambda>t tz. t + utcOffset tz t),
      Time_toUnixTime = (\<lambda>p tz. wallNs p div 1000000000 - utcOffset tz (wallNs p div 1000000000)),
      engine_until = (\<lambda>a b bag. Inl RangeError),
      format_toString = (\<lambda>t options. Inr (''['' @ timeZoneId t @ '']'')),
      format_toLocaleString = (\<lambda>t locales options. Inr (''['' @ timeZoneId t @ '']''))\<rparr>"

text \<open>The objects the script builds with \<^verbatim>\<open>fromInstant\<close> for the start and the end of
  its first event (2012-09-11T10:30 and 11:00 in America/Los_Angeles) and for the start
  of its second (2022-12-21T09:00 at -07:00, the Instant 2022-12-21T16:00Z).\<close>

definition losAngelesEvent :: "int ZonedDateTime" where
  "losAngelesEvent =
     \<lparr>impl = \<lparr>epochNanoseconds = 1347384600000000000, timeZoneId = ''America/Los_Angeles'',
              zone = los_angeles, calendarId = ''iso8601'', cal = iso8601\<rparr>,
      priv_timeZone = icalLosAngeles, isIANA = True,
      era = None, eraYear = None, year = 2012, month = 9, monthCode = ''M09'', day = 11,
      hour = 10, minute = 30, second = 0, millisecond = 0, microsecond = 0, nanosecond = 0,
      calendar = ''iso8601'', timeZone = Some ''America/Los_Angeles''\<rparr>"


definition mountainEvent :: "int ZonedDateTime" where
  "mountainEvent =
     \<lparr>impl = \<lparr>epochNanoseconds = 1671638400000000000, timeZoneId = ''UTC'', zone = utc_rules,
              calendarId = ''iso8601'', cal = iso8601\<rparr>,
      priv_timeZone = usMountainStandardTime, isIANA = False,
      era = None, eraYear = None, year = 2022, month = 12, monthCode = ''M12'', day = 21,
      hour = 9, minute = 0, second = 0, millisecond = 0, microsecond = 0, nanosecond = 0,
      calendar = ''iso8601'', timeZone = None\<rparr>"

text \<open>Two objects at the Instant 2012-03-11T09:30Z, half an hour before daylight time
  begins in Los Angeles (at 10:00Z, 02:00 local time at -08:00): the first as the
  constructor builds it for the rule-based zone Pacific Standard Time, the second for
  the IANA zone with the same rules.\<close>

definition pacificBeforeTransition :: "int ZonedDateTime" where
  "pacificBeforeTransition =
     \<lparr>impl = \<lparr>epochNanoseconds = 1331458200000000000, timeZoneId = ''UTC'', zone = utc_rules,
              calendarId = ''iso8601'', cal = iso8601\<rparr>,
      priv_timeZone = pacificStandardTime, isIANA = False,
      era = None, eraYear = None, year = 2012, month = 3, monthCode = ''M03'', day = 11,
      hour = 2, minute = 30, second = 0, millisecond = 0, microsecond = 0, nanosecond = 0,
      calendar = ''iso8601'', timeZone = None\<rparr>"

definition losAngelesBeforeTransition :: "int ZonedDateTime" where
  "losAngelesBeforeTransition =
     \<lparr>impl = \<lparr>epochNanoseconds = 1331458200000000000, timeZoneId = ''America/Los_Angeles'',
              zone = los_angeles, calendarId = ''iso8601'', cal = iso8601\<rparr>,
      priv_timeZone = icalLosAngeles, isIANA = True,
      era = None, eraYear = None, year = 2012, month = 3, monthCode = ''M03'', day = 11,
      hour = 1, minute = 30, second = 0, millisecond = 0, microsecond = 0, nanosecond = 0,
      calendar = ''iso8601'', timeZone = Some ''America/Los_Angeles''\<rparr>"



text \<open>The duration the script adds, \<^verbatim>\<open>P1Y3DT2H30M\<close>.\<close>

definition scenarioD :: duration where
  "scenarioD = \<lparr>years = 1, months = 0, weeks = 0, days = 3, hours = 2, minutes = 30,
                seconds = 0, milliseconds = 0, microseconds = 0, nanoseconds = 0\<rparr>"

text \<open>A duration of one month and two hours, \<^verbatim>\<open>P1MT2H\<close>.\<close>

definition oneMonthTwoHours :: duration where
  "oneMonthTwoHours = \<lparr>years = 0, months = 1, weeks = 0, days = 0, hours = 2, minutes = 0,
                seconds = 0, milliseconds = 0, microseconds = 0, nanoseconds = 0\<rparr>"

subsection \<open>Notions the properties are stated with\<close>

text \<open>The twelve wall-clock fields of an object, and the decomposition of a wall-clock
  reading by a calendar into the same twelve fields.\<close>

definition wallClockFields :: "'t ZonedDateTime \<Rightarrow>
    (string option \<times> int option \<times> int \<times> int \<times> string \<times> int)
    \<times> (int \<times> int \<times> int \<times> int \<times> int \<times> int)" where
  "wallClockFields z =
     ((era z, eraYear z, year z, month z, monthCode z, day z),
      (hour z, minute z, second z, millisecond z, microsecond z, nanosecond z))"

definition decompose :: "calendar_impl \<Rightarrow> int \<Rightarrow>
    (string option \<times> int option \<times> int \<times> int \<times> string \<times> int)
    \<times> (int \<times> int \<times> int \<times> int \<times> int \<times> int)" where
  "decompose c w =
     (let p = \<lparr>wallNs = w, pdtCalendarId = calId c, pdtCal = c\<rparr>
      in ((f_era (pdt_date p), f_eraYear (pdt_date p), f_year (pdt_date p), f_month (pdt_date p),
           f_monthCode (pdt_date p), f_day (pdt_date p)),
          (pdt_hour p, pdt_minute p, pdt_second p, pdt_millisecond p, pdt_microsecond p,
           pdt_nanosecond p)))"


section \<open>Properties\<close>

subsection \<open>Evaluation on the sample host\<close>

lemmas engine_defs =
  Temporal_ZonedDateTime_def lookupTimeZone_def lookupCalendar_def
  Temporal_offsetNanoseconds_def Temporal_toPlainDateTime_def Temporal_epochMilliseconds_def
  getOffsetNanosecondsFor_def Plain_add_nanoseconds_def pdt_in_range_def nsPerDay_def
  nsMaxInstant_def utc_rules_def pdt_date_def pdt_hour_def pdt_minute_def pdt_second_def
  pdt_millisecond_def pdt_microsecond_def pdt_nanosecond_def

lemmas sample_defs =
  sampleHost_def los_angeles_def icalLosAngeles_def usMountainStandardTime_def
  pacificStandardTime_def iso8601_def gregory_def

lemmas class_defs = new_ZonedDateTime_def toPlainDateTime_def offsetNanoseconds_def

lemma isoFieldsOf_19347:
  "isoFieldsOf 19347 =
     \<lparr>f_era = None, f_eraYear = None, f_year = 2022, f_month = 12, f_monthCode = ''M12'',
      f_day = 21\<rparr>"
  by code_simp

lemma isoFieldsOf_15594:
  "isoFieldsOf 15594 =
     \<lparr>f_era = None, f_eraYear = None, f_year = 2012, f_month = 9, f_monthCode = ''M09'',
      f_day = 11\<rparr>"
  by code_simp

lemma mountainEvent_constructed:
  "new_ZonedDateTime sampleHost 1671638400000000000 usMountainStandardTime None = Inr mountainEvent"
  by (simp add: class_defs engine_defs sample_defs mountainEvent_def Let_def isoFieldsOf_19347)

lemma losAngelesEvent_constructed:
  "new_ZonedDateTime sampleHost 1347384600000000000 icalLosAngeles None = Inr losAngelesEvent"
  by (simp add: class_defs engine_defs sample_defs losAngelesEvent_def Let_def isoFieldsOf_15594)


lemma isoFieldsOf_15410:
  "isoFieldsOf 15410 =
     \<lparr>f_era = None, f_eraYear = None, f_year = 2012, f_month = 3, f_monthCode = ''M03'',
      f_day = 11\<rparr>"
  by code_simp



lemma pacificBeforeTransition_constructed:
  "new_ZonedDateTime sampleHost 1331458200000000000 pacificStandardTime None
     = Inr pacificBeforeTransition"
  by (simp add: class_defs engine_defs sample_defs pacificBeforeTransition_def Let_def
      isoFieldsOf_15410)

lemma losAngelesBeforeTransition_constructed:
  "new_ZonedDateTime sampleHost 1331458200000000000 icalLosAngeles None
     = Inr losAngelesBeforeTransition"
  by (simp add: class_defs engine_defs sample_defs losAngelesBeforeTransition_def Let_def
      isoFieldsOf_15410)



subsection \<open>What the constructor establishes\<close>


lemma new_ZonedDateTime_private:
  assumes "new_ZonedDateTime h epochNs tz calendarArg = Inr z"
  shows "priv_timeZone z = tz"
    and "isIANA z = (\<exists>ident. tzid tz = Some ident \<and> ident \<in> set (supportedValuesOf_timeZone h))"
    and "Temporal_ZonedDateTime h epochNs
           (if isIANA z then (case tzid tz of Some ident \<Rightarrow> ident | None \<Rightarrow> ''UTC'') else ''UTC'')
           (case calendarArg of None \<Rightarrow> ''iso8601'' | Some c \<Rightarrow> c) = Inr (impl z)"
    and "calendar z = (case calendarArg of None \<Rightarrow> ''iso8601'' | Some c \<Rightarrow> c)"
    and "timeZone z = (if isIANA z then tzid tz else None)"
  using assms
  by (auto simp: new_ZonedDateTime_def Let_def split: sum.splits option.splits)

lemma Temporal_ZonedDateTime_slots:
  assumes "Temporal_ZonedDateTime h epochNs ident c = Inr t"
  shows "epochNanoseconds t = epochNs" and "timeZoneId t = ident"
    and "lookupTimeZone h ident = Inr (zone t)"
    and "lookupCalendar h c = Inr (cal t)"
    and "calendarId t = calId (cal t)"
    and "- nsMaxInstant \<le> epochNs" and "epochNs \<le> nsMaxInstant"
  using assms
  by (auto simp: Temporal_ZonedDateTime_def split: if_splits sum.splits)

lemma new_ZonedDateTime_instant:
  assumes "new_ZonedDateTime h epochNs tz calendarArg = Inr z"
  shows "epochNanoseconds (impl z) = epochNs"
  using new_ZonedDateTime_private(3) [OF assms] Temporal_ZonedDateTime_slots(1) by blast

lemma new_ZonedDateTime_fields:
  assumes "new_ZonedDateTime h epochNs tz calendarArg = Inr z"
  shows "\<exists>pdt. toPlainDateTime h z = Inr pdt \<and>
           era z = f_era (pdt_date pdt) \<and> eraYear z = f_eraYear (pdt_date pdt) \<and>
           year z = f_year (pdt_date pdt) \<and> month z = f_month (pdt_date pdt) \<and>
           monthCode z = f_monthCode (pdt_date pdt) \<and> day z = f_day (pdt_date pdt) \<and>
           hour z = pdt_hour pdt \<and> minute z = pdt_minute pdt \<and> second z = pdt_second pdt \<and>
           millisecond z = pdt_millisecond pdt \<and> microsecond z = pdt_microsecond pdt \<and>
           nanosecond z = pdt_nanosecond pdt"
  using assms
  apply (simp add: new_ZonedDateTime_def Let_def split: sum.splits)
  apply (auto simp: toPlainDateTime_def offsetNanoseconds_def)
  done

lemma new_ZonedDateTime_built:
  assumes t: "Temporal_ZonedDateTime h epochNs
                (if ia then (case tzid tz of Some ident \<Rightarrow> ident | None \<Rightarrow> ''UTC'') else ''UTC'')
                (case calendarArg of None \<Rightarrow> ''iso8601'' | Some c \<Rightarrow> c) = Inr t"
    and ia: "ia = (case tzid tz of None \<Rightarrow> False
                   | Some ident \<Rightarrow> ident \<in> set (supportedValuesOf_timeZone h))"
    and pd: "toPlainDateTime h \<lparr>impl = t, priv_timeZone = tz, isIANA = ia\<rparr> = Inr pdt"
  shows "new_ZonedDateTime h epochNs tz calendarArg =
           Inr \<lparr>impl = t, priv_timeZone = tz, isIANA = ia,
                era = f_era (pdt_date pdt), eraYear = f_eraYear (pdt_date pdt),
                year = f_year (pdt_date pdt), month = f_month (pdt_date pdt),
                monthCode = f_monthCode (pdt_date pdt), day = f_day (pdt_date pdt),
                hour = pdt_hour pdt, minute = pdt_minute pdt, second = pdt_second pdt,
                millisecond = pdt_millisecond pdt, microsecond = pdt_microsecond pdt,
                nanosecond = pdt_nanosecond pdt,
                calendar = (case calendarArg of None \<Rightarrow> ''iso8601'' | Some c \<Rightarrow> c),
                timeZone = (if ia then tzid tz else None)\<rparr>"
  using t pd unfolding ia
  by (simp add: new_ZonedDateTime_def Let_def)

lemma isIANA_as_case:
  assumes "new_ZonedDateTime h epochNs tz calendarArg = Inr z"
  shows "isIANA z = (case tzid tz of None \<Rightarrow> False
                     | Some ident \<Rightarrow> ident \<in> set (supportedValuesOf_timeZone h))"
  using new_ZonedDateTime_private(2) [OF assms] by (auto split: option.splits)

lemma wallClockFields_of_pdt:
  assumes "new_ZonedDateTime h epochNs tz calendarArg = Inr z"
  shows "\<exists>pdt. toPlainDateTime h z = Inr pdt \<and> pdtCal pdt = cal (impl z) \<and>
           wallNs pdt = epochNanoseconds (impl z) + offsetNanoseconds h z \<and>
           wallClockFields z = decompose (pdtCal pdt) (wallNs pdt)"
proof -
  from new_ZonedDateTime_fields [OF assms] obtain pdt where
    p: "toPlainDateTime h z = Inr pdt" and
    f: "wallClockFields z = decompose (pdtCal pdt) (wallNs pdt)"
    by (auto simp: wallClockFields_def decompose_def Let_def pdt_date_def pdt_hour_def
        pdt_minute_def pdt_second_def pdt_millisecond_def pdt_microsecond_def pdt_nanosecond_def)
  have utc: "\<not> isIANA z \<Longrightarrow> zone (impl z) = utc_rules"
    using new_ZonedDateTime_private(3) [OF assms] Temporal_ZonedDateTime_slots(3)
    by (fastforce simp: lookupTimeZone_def)
  have "pdtCal pdt = cal (impl z) \<and> wallNs pdt = epochNanoseconds (impl z) + offsetNanoseconds h z"
    using p utc
    by (auto simp: toPlainDateTime_def Temporal_toPlainDateTime_def Plain_add_nanoseconds_def
        offsetNanoseconds_def Temporal_offsetNanoseconds_def getOffsetNanosecondsFor_def
        utc_rules_def split: if_splits)
  with p f show ?thesis by blast
qed



lemma ms_then_s: "(n :: int) div 1000000 div 1000 = n div 1000000000"
  by (simp add: zdiv_zmult2_eq [symmetric])


lemma toNumber_ties_to_even:
  "toNumber 9007199254740994 = 9007199254740994"
  "toNumber 9007199254740995 = 9007199254740996"
  "toNumber (- 9007199254740995) = - 9007199254740996"
  "toNumber 18014398509481986 = 18014398509481984"
  "toNumber 18014398509481990 = 18014398509481992"
  by code_simp+



lemma toNumber_small: "\<bar>x\<bar> < 9007199254740992 \<Longrightarrow> toNumber x = x"
  by (simp add: toNumber_def)






lemma toPlainDateTime_succeeds_iff:
  "(\<exists>p. toPlainDateTime h x = Inr p)
     = (isIANA x \<or> pdt_in_range (epochNanoseconds (impl x)
          + getOffsetNanosecondsFor (zone (impl x)) (epochNanoseconds (impl x))
          + offsetNanoseconds h x))"
  by (simp add: toPlainDateTime_def Plain_add_nanoseconds_def Temporal_toPlainDateTime_def
      Temporal_offsetNanoseconds_def)

lemma offsetNanoseconds_rule_based:
  "\<not> isIANA x \<Longrightarrow> offsetNanoseconds h x =
     utcOffset (priv_timeZone x)
       (convertToZone h (fromUnixTime h (epochNanoseconds (impl x) div 1000000 div 1000))
          (priv_timeZone x)) * 1000000000"
  by (simp add: offsetNanoseconds_def Temporal_epochMilliseconds_def)

lemma withCalendar_succeeds:
  assumes c: "new_ZonedDateTime h epochNs tz calendarArg = Inr z"
    and k: "calendars h c1 = Some ci"
  shows "\<exists>z'. withCalendar h z c1 = Inr z'"
proof -
  note p = new_ZonedDateTime_private [OF c]
  let ?ident = "if isIANA z then (case tzid tz of Some ident \<Rightarrow> ident | None \<Rightarrow> ''UTC'') else ''UTC''"
  note s = Temporal_ZonedDateTime_slots [OF p(3)]
  let ?t = "\<lparr>epochNanoseconds = epochNs, timeZoneId = ?ident, zone = zone (impl z),
            calendarId = calId ci, cal = ci\<rparr>"
  have t: "Temporal_ZonedDateTime h epochNs ?ident
             (case Some c1 of None \<Rightarrow> ''iso8601'' | Some c \<Rightarrow> c) = Inr ?t"
    using s k by (simp add: Temporal_ZonedDateTime_def lookupCalendar_def)
  from new_ZonedDateTime_fields [OF c] have "\<exists>p. toPlainDateTime h z = Inr p" by blast
  then have "\<exists>p. toPlainDateTime h \<lparr>impl = ?t, priv_timeZone = tz, isIANA = isIANA z\<rparr> = Inr p"
    unfolding toPlainDateTime_succeeds_iff
    using s(1) p(1)
    by (cases "isIANA z") (simp_all add: offsetNanoseconds_rule_based)
  then obtain pd where
    pd: "toPlainDateTime h \<lparr>impl = ?t, priv_timeZone = tz, isIANA = isIANA z\<rparr> = Inr pd"
    by blast
  show ?thesis
    using new_ZonedDateTime_built [OF t isIANA_as_case [OF c] pd] p(1) s(1)
    by (simp add: withCalendar_def)
qed

lemma withTimeZone_succeeds:
  assumes c: "new_ZonedDateTime h epochNs tz calendarArg = Inr z"
    and canon: "calendars h (calendarId (impl z)) = Some ci"
    and id: "tzid tz1 = Some ident" "ident \<in> set (supportedValuesOf_timeZone h)"
    and known: "lookupTimeZone h ident = Inr rules"
  shows "\<exists>z'. withTimeZone h z tz1 = Inr z'"
proof -
  note p = new_ZonedDateTime_private [OF c]
  note s = Temporal_ZonedDateTime_slots [OF p(3)]
  let ?t = "\<lparr>epochNanoseconds = epochNs, timeZoneId = ident, zone = rules,
            calendarId = calId ci, cal = ci\<rparr>"
  have t: "Temporal_ZonedDateTime h epochNs
             (if True then (case tzid tz1 of Some ident \<Rightarrow> ident | None \<Rightarrow> ''UTC'') else ''UTC'')
             (case Some (calendarId (impl z)) of None \<Rightarrow> ''iso8601'' | Some c \<Rightarrow> c) = Inr ?t"
    using s(6,7) canon id known by (simp add: Temporal_ZonedDateTime_def lookupCalendar_def)
  have ia: "True = (case tzid tz1 of None \<Rightarrow> False
                   | Some ident \<Rightarrow> ident \<in> set (supportedValuesOf_timeZone h))"
    using id by simp
  have pd: "toPlainDateTime h \<lparr>impl = ?t, priv_timeZone = tz1, isIANA = True\<rparr>
              = Inr (Temporal_toPlainDateTime ?t)"
    by (simp add: toPlainDateTime_def)
  show ?thesis
    using new_ZonedDateTime_built [OF t ia pd] s(1)
    by (simp add: withTimeZone_def)
qed

subsection \<open>The script's second event, of a rule-based zone with a name\<close>

lemma isoDateAdd_19347:
  "isoDateAdd 19347 1 0 0 3 Constrain = Inr 19715"
  by code_simp

lemma mountainEvent_toPlainDateTime:
  "toPlainDateTime sampleHost mountainEvent
     = Inr \<lparr>wallNs = 1671613200000000000, pdtCalendarId = ''iso8601'', pdtCal = iso8601\<rparr>"
  by (simp add: toPlainDateTime_def offsetNanoseconds_def engine_defs sampleHost_def
      usMountainStandardTime_def mountainEvent_def)

lemma fromPlainDateTime_unknown_name:
  assumes "tzid tz = Some (c # cs)" and "lookupTimeZone h (c # cs) = Inl e"
  shows "fromPlainDateTime h pdt tz options = Inl e"
  using assms by (simp add: fromPlainDateTime_def Plain_toZonedDateTime_def)

lemma mountain_unknown:
  "lookupTimeZone sampleHost ''US Mountain Standard Time'' = Inl RangeError"
  by (simp add: lookupTimeZone_def sampleHost_def)

lemma mountain_tzid: "tzid usMountainStandardTime = Some ''US Mountain Standard Time''"
  by (simp add: usMountainStandardTime_def)

subsection \<open>Two phases of add\<close>

text \<open>
  For a duration without calendar units \<^verbatim>\<open>add\<close> is the exact shift of the Instant. For
  any other duration it is the two phases of the spec, in the spec's order, with
  \<^verbatim>\<open>fromPlainDateTime\<close> as the resolution step: on a rule-based zone by the method's own
  second branch, on an IANA zone because the engine's \<^verbatim>\<open>add\<close> does the same.
\<close>

lemma add_without_calendar_units:
  assumes "years d = 0 \<and> months d = 0 \<and> weeks d = 0 \<and> days d = 0"
  shows "add h z d options = instantShift h z (timeNs d)"
  using assms
  by (subst add.simps) (simp add: Temporal_add_def instantShift_def)

lemma add_rule_based:
  assumes rb: "\<not> isIANA z"
    and nz: "\<not> (years d = 0 \<and> months d = 0 \<and> weeks d = 0 \<and> days d = 0)"
    and v: "validDuration d"
  shows "add h z d options = add_two_phase h z d options"
proof -
  let ?tp = "\<lparr>years = 0, months = 0, weeks = 0, days = 0,
              hours = hours d, minutes = minutes d, seconds = seconds d,
              milliseconds = milliseconds d, microseconds = microseconds d,
              nanoseconds = nanoseconds d\<rparr>"
  have vt: "Duration_from ?tp = Inr ?tp"
    using v by (auto simp: Duration_from_def validDuration_def durationFields_def)
  have tn: "timeNs ?tp = timeNs d" by (simp add: timeNs_def)
  have rec: "add h i ?tp None = instantShift h i (timeNs d)" for i
    using add_without_calendar_units [of ?tp h i None] tn by simp
  from nz have cz: "(years d = 0 \<and> months d = 0 \<and> weeks d = 0 \<and> days d = 0) = False"
    by blast
  show ?thesis
    apply (subst add.simps)
    apply (simp only: rb cz add_two_phase_def calendarPhase_def simp_thms if_False vt rec
             sum.case)
    apply (simp split: sum.splits)
    done
qed


lemma Plain_add_date_calendar:
  assumes "Plain_add_date p y m w d options = Inr p'"
  shows "pdtCalendarId p' = pdtCalendarId p" and "pdtCal p' = pdtCal p"
  using assms by (auto simp: Plain_add_date_def split: sum.splits if_splits)

lemma iana_at_instant:
  assumes c: "new_ZonedDateTime h epochNs tz calendarArg = Inr z"
    and ia: "isIANA z"
    and canon: "calendars h (calendarId (impl z)) = Some (cal (impl z))"
    and r: "\<not> (i < - nsMaxInstant \<or> nsMaxInstant < i)"
  shows "\<exists>zi. new_ZonedDateTime h i tz (Some (calendarId (impl z))) = Inr zi
              \<and> impl zi = (impl z)\<lparr>epochNanoseconds := i\<rparr> \<and> priv_timeZone zi = tz"
proof -
  note p = new_ZonedDateTime_private [OF c]
  note s = Temporal_ZonedDateTime_slots [OF p(3)]
  let ?ident = "if isIANA z then (case tzid tz of Some ident \<Rightarrow> ident | None \<Rightarrow> ''UTC'') else ''UTC''"
  let ?t = "(impl z)\<lparr>epochNanoseconds := i\<rparr>"
  have "Temporal_ZonedDateTime h i ?ident (calendarId (impl z))
          = Inr \<lparr>epochNanoseconds = i, timeZoneId = ?ident, zone = zone (impl z),
                 calendarId = calId (cal (impl z)), cal = cal (impl z)\<rparr>"
    using s(3) canon r by (simp add: Temporal_ZonedDateTime_def lookupCalendar_def)
  moreover have "\<lparr>epochNanoseconds = i, timeZoneId = ?ident, zone = zone (impl z),
                 calendarId = calId (cal (impl z)), cal = cal (impl z)\<rparr> = ?t"
    using s(2) s(5) by (intro temporal_zdt.equality) simp_all
  ultimately have t: "Temporal_ZonedDateTime h i ?ident
             (case Some (calendarId (impl z)) of None \<Rightarrow> ''iso8601'' | Some c \<Rightarrow> c) = Inr ?t"
    by simp
  have pd: "toPlainDateTime h \<lparr>impl = ?t, priv_timeZone = tz, isIANA = isIANA z\<rparr>
              = Inr (Temporal_toPlainDateTime ?t)"
    using ia by (simp add: toPlainDateTime_def)
  show ?thesis
    using new_ZonedDateTime_built [OF t isIANA_as_case [OF c] pd] by simp
qed

lemma fromPlainDateTime_iana:
  assumes c: "new_ZonedDateTime h epochNs tz calendarArg = Inr z"
    and ia: "isIANA z"
    and ne: "[] \<notin> set (supportedValuesOf_timeZone h)"
  shows "fromPlainDateTime h pdt tz options =
           (case disambiguate (zone (impl z)) (wallNs pdt)
                   (case options of None \<Rightarrow> Compatible | Some d \<Rightarrow> d) of
              Inl e \<Rightarrow> Inl e
            | Inr i \<Rightarrow>
                (if i < - nsMaxInstant \<or> nsMaxInstant < i then Inl RangeError
                 else new_ZonedDateTime h i tz (Some (pdtCalendarId pdt))))"
proof -
  note p = new_ZonedDateTime_private [OF c]
  from ia p(2) obtain ident where id: "tzid tz = Some ident"
    "ident \<in> set (supportedValuesOf_timeZone h)" by blast
  with ne obtain a as where cons: "ident = a # as" by (cases ident) auto
  have "Temporal_ZonedDateTime h epochNs ident
          (case calendarArg of None \<Rightarrow> ''iso8601'' | Some c \<Rightarrow> c) = Inr (impl z)"
    using p(3) ia id by simp
  then have l: "lookupTimeZone h (a # as) = Inr (zone (impl z))"
    using Temporal_ZonedDateTime_slots(3) cons by blast
  show ?thesis
    using id(1) cons l
    by (simp add: fromPlainDateTime_def Plain_toZonedDateTime_def split: sum.splits)
qed

lemma add_iana:
  assumes c: "new_ZonedDateTime h epochNs tz calendarArg = Inr z"
    and ia: "isIANA z"
    and canon: "calendars h (calendarId (impl z)) = Some (cal (impl z))"
    and ne: "[] \<notin> set (supportedValuesOf_timeZone h)"
    and nz: "\<not> (years d = 0 \<and> months d = 0 \<and> weeks d = 0 \<and> days d = 0)"
  shows "add h z d options = add_two_phase h z d options"
proof -
  note p = new_ZonedDateTime_private [OF c]
  from nz have cz: "(years d = 0 \<and> months d = 0 \<and> weeks d = 0 \<and> days d = 0) = False"
    by blast
  let ?p0 = "Temporal_toPlainDateTime (impl z)"
  have tp: "toPlainDateTime h z = Inr ?p0" using ia by (simp add: toPlainDateTime_def)
  have lhs: "add h z d options =
      (case Temporal_add (impl z) d options of
         Inl e \<Rightarrow> Inl e
       | Inr t \<Rightarrow> new_ZonedDateTime h (epochNanoseconds t) tz (Some (calendarId (impl z))))"
    using ia p(1) by (subst add.simps) (simp split: sum.splits)
  show ?thesis
  proof (cases "Plain_add_date ?p0 (years d) (months d) (weeks d) (days d) options")
    case (Inl e)
    then show ?thesis
      by (simp add: lhs Temporal_add_def cz add_two_phase_def calendarPhase_def tp)
  next
    case (Inr pdt)
    have cid: "pdtCalendarId pdt = calendarId (impl z)"
      using Plain_add_date_calendar(1) [OF Inr] by (simp add: Temporal_toPlainDateTime_def)
    show ?thesis
    proof (cases "disambiguate (zone (impl z)) (wallNs pdt) Compatible")
      case (Inl e)
      then show ?thesis
        using Inr p(1)
        by (simp add: lhs Temporal_add_def cz add_two_phase_def calendarPhase_def tp
            fromPlainDateTime_iana [OF c ia ne])
    next
      case i: (Inr i)
      show ?thesis
      proof (cases "i < - nsMaxInstant \<or> nsMaxInstant < i")
        case True
        then show ?thesis
          using Inr i p(1)
          by (simp add: lhs Temporal_add_def cz add_two_phase_def calendarPhase_def tp
              fromPlainDateTime_iana [OF c ia ne])
      next
        case False
        from iana_at_instant [OF c ia canon False] obtain zi where
          zi: "new_ZonedDateTime h i tz (Some (calendarId (impl z))) = Inr zi"
              "impl zi = (impl z)\<lparr>epochNanoseconds := i\<rparr>" "priv_timeZone zi = tz"
          by blast
        have rhs: "add_two_phase h z d options = instantShift h zi (timeNs d)"
          using Inr i False zi(1) p(1) cid
          by (simp add: cz add_two_phase_def calendarPhase_def tp fromPlainDateTime_iana [OF c ia ne])
        have "add h z d options =
                (case Temporal_addInstant ((impl z)\<lparr>epochNanoseconds := i\<rparr>) (timeNs d) of
                   Inl e \<Rightarrow> Inl e
                 | Inr t \<Rightarrow> new_ZonedDateTime h (epochNanoseconds t) tz (Some (calendarId (impl z))))"
          using Inr i False by (simp add: lhs Temporal_add_def cz)
        also have "\<dots> = instantShift h zi (timeNs d)"
          using zi(2,3) by (simp add: instantShift_def split: sum.splits)
        finally show ?thesis using rhs by simp
      qed
    qed
  qed
qed

lemma add_follows_two_phases:
  assumes c: "new_ZonedDateTime h epochNs tz calendarArg = Inr z"
    and canon: "calendars h (calendarId (impl z)) = Some (cal (impl z))"
    and ne: "[] \<notin> set (supportedValuesOf_timeZone h)"
    and v: "validDuration d"
  shows "add h z d options = add_two_phase h z d options"
proof (cases "years d = 0 \<and> months d = 0 \<and> weeks d = 0 \<and> days d = 0")
  case True
  then show ?thesis
    using add_without_calendar_units [OF True] by (simp add: add_two_phase_def)
next
  case False
  then show ?thesis
    using add_iana [OF c _ canon ne False] add_rule_based [OF _ False v]
    by (cases "isIANA z") blast+
qed

subsection \<open>startOfDay in an IANA zone\<close>

text \<open>
  In an IANA zone \<^verbatim>\<open>startOfDay\<close> resolves the reading 00:00 of the same date with
  compatible disambiguation; when that local midnight exists, the result reads 00:00 on
  the calendar date of the receiver.
\<close>

lemma getPossibleInstantsFor_sound:
  "t \<in> set (getPossibleInstantsFor z w) \<Longrightarrow> t + getOffsetNanosecondsFor z t = w"
  by (auto simp: getPossibleInstantsFor_def)

lemma disambiguate_compatible_member:
  assumes "getPossibleInstantsFor z w \<noteq> []"
  shows "\<exists>t. disambiguate z w Compatible = Inr t \<and> t \<in> set (getPossibleInstantsFor z w)"
proof (cases "getPossibleInstantsFor z w")
  case Nil
  with assms show ?thesis by simp
next
  case (Cons t ts)
  then show ?thesis
    by (cases ts) (simp_all add: disambiguate_def)
qed

lemma iana_same_zone:
  assumes c: "new_ZonedDateTime h epochNs tz calendarArg = Inr z"
    and c': "new_ZonedDateTime h i tz (Some (calendarId (impl z))) = Inr z'"
    and canon: "calendars h (calendarId (impl z)) = Some (cal (impl z))"
  shows "isIANA z' = isIANA z" and "zone (impl z') = zone (impl z)"
    and "cal (impl z') = cal (impl z)"
proof -
  note p = new_ZonedDateTime_private [OF c] and p' = new_ZonedDateTime_private [OF c']
  show i: "isIANA z' = isIANA z" using p(2) p'(2) by simp
  note s = Temporal_ZonedDateTime_slots [OF p(3)] and s' = Temporal_ZonedDateTime_slots [OF p'(3)]
  show "zone (impl z') = zone (impl z)" using s(3) s'(3) i by simp
  show "cal (impl z') = cal (impl z)" using s'(4) canon by (simp add: lookupCalendar_def)
qed

lemma decompose_midnight:
  "decompose c ((w div nsPerDay) * nsPerDay) =
     (fst (decompose c w), (0, 0, 0, 0, 0, 0))"
  by (simp add: decompose_def Let_def pdt_date_def pdt_hour_def pdt_minute_def pdt_second_def
      pdt_millisecond_def pdt_microsecond_def pdt_nanosecond_def nsPerDay_def)

lemma startOfDay_iana:
  assumes c: "new_ZonedDateTime h epochNs tz calendarArg = Inr z"
    and ia: "isIANA z"
    and ne: "[] \<notin> set (supportedValuesOf_timeZone h)"
  shows "startOfDay h z =
           (case disambiguate (zone (impl z))
                   (((epochNs + offsetNanoseconds h z) div nsPerDay) * nsPerDay) Compatible of
              Inl e \<Rightarrow> Inl e
            | Inr i \<Rightarrow>
                (if i < - nsMaxInstant \<or> nsMaxInstant < i then Inl RangeError
                 else new_ZonedDateTime h i tz (Some (calendarId (impl z)))))"
proof -
  note p = new_ZonedDateTime_private [OF c]
  have tp: "toPlainDateTime h z = Inr (Temporal_toPlainDateTime (impl z))"
    using ia by (simp add: toPlainDateTime_def)
  have w: "wallNs (Temporal_toPlainDateTime (impl z)) = epochNs + offsetNanoseconds h z"
    using ia new_ZonedDateTime_instant [OF c]
    by (simp add: Temporal_toPlainDateTime_def offsetNanoseconds_def)
  show ?thesis
    using p(1) w
    by (simp add: startOfDay_def tp fromPlainDateTime_iana [OF c ia ne] Plain_withPlainTime_def
        Temporal_toPlainDateTime_def split: sum.splits)
qed

lemma startOfDay_iana_midnight:
  assumes c: "new_ZonedDateTime h epochNs tz calendarArg = Inr z"
    and ia: "isIANA z"
    and canon: "calendars h (calendarId (impl z)) = Some (cal (impl z))"
    and ne: "[] \<notin> set (supportedValuesOf_timeZone h)"
    and ex: "getPossibleInstantsFor (zone (impl z))
               (((epochNs + offsetNanoseconds h z) div nsPerDay) * nsPerDay) \<noteq> []"
    and r: "startOfDay h z = Inr z'"
  shows "wallClockFields z' = (fst (wallClockFields z), (0, 0, 0, 0, 0, 0))"
    and "priv_timeZone z' = tz" and "calendarId (impl z') = calendarId (impl z)"
proof -
  let ?w = "((epochNs + offsetNanoseconds h z) div nsPerDay) * nsPerDay"
  from disambiguate_compatible_member [OF ex] obtain t where
    t: "disambiguate (zone (impl z)) ?w Compatible = Inr t"
       "t \<in> set (getPossibleInstantsFor (zone (impl z)) ?w)" by blast
  have tw: "t + getOffsetNanosecondsFor (zone (impl z)) t = ?w"
    by (rule getPossibleInstantsFor_sound [OF t(2)])
  have c': "new_ZonedDateTime h t tz (Some (calendarId (impl z))) = Inr z'"
    using r t(1) by (simp add: startOfDay_iana [OF c ia ne] split: if_splits)
  note same = iana_same_zone [OF c c' canon]
  have ia': "isIANA z'" using same(1) ia by simp
  have off: "offsetNanoseconds h z' = getOffsetNanosecondsFor (zone (impl z)) t"
    using ia' same(2) new_ZonedDateTime_instant [OF c']
    by (simp add: offsetNanoseconds_def Temporal_offsetNanoseconds_def)
  from wallClockFields_of_pdt [OF c'] have
    "wallClockFields z' = decompose (cal (impl z')) (epochNanoseconds (impl z') + offsetNanoseconds h z')"
    by auto
  then have f': "wallClockFields z' = decompose (cal (impl z)) ?w"
    using same(3) off tw new_ZonedDateTime_instant [OF c'] by simp
  from wallClockFields_of_pdt [OF c] have
    f: "wallClockFields z = decompose (cal (impl z)) (epochNs + offsetNanoseconds h z)"
    using new_ZonedDateTime_instant [OF c] by auto
  show "wallClockFields z' = (fst (wallClockFields z), (0, 0, 0, 0, 0, 0))"
    using f f' by (simp add: decompose_midnight)
  show "priv_timeZone z' = tz" using new_ZonedDateTime_private(1) [OF c'] .
  show "calendarId (impl z') = calendarId (impl z)"
    using same(3) Temporal_ZonedDateTime_slots(5) [OF new_ZonedDateTime_private(3) [OF c']]
      Temporal_ZonedDateTime_slots(5) [OF new_ZonedDateTime_private(3) [OF c]]
    by simp
qed

subsection \<open>The order of the two phases matters\<close>

text \<open>
  From 2012-01-30T23:00 in America/Los_Angeles, one month and two hours: the calendar
  units first give 2012-03-01T01:00, the time units first give 2012-02-29T01:00.
\<close>

lemma isoDateAdd_15369: "isoDateAdd 15369 0 1 0 0 Constrain = Inr 15399"
  by code_simp

lemma isoDateAdd_15370: "isoDateAdd 15370 0 1 0 0 Constrain = Inr 15399"
  by code_simp

lemma disambiguate_la_1:
  "disambiguate los_angeles 1330556400000000000 Compatible = Inr 1330585200000000000"
  by code_simp

lemma disambiguate_la_2:
  "disambiguate los_angeles 1330477200000000000 Compatible = Inr 1330506000000000000"
  by code_simp

lemma la_canon:
  "calendars sampleHost (calendarId (impl losAngelesEvent)) = Some (cal (impl losAngelesEvent))"
  by (simp add: sampleHost_def losAngelesEvent_def)

lemma la_iana: "isIANA losAngelesEvent"
  by (simp add: losAngelesEvent_def)

lemma la_nonempty: "[] \<notin> set (supportedValuesOf_timeZone sampleHost)"
  by (simp add: sampleHost_def)

lemma la_at_instant:
  assumes "\<not> (i < - nsMaxInstant \<or> nsMaxInstant < i)"
  shows "\<exists>zi. new_ZonedDateTime sampleHost i icalLosAngeles (Some ''iso8601'') = Inr zi
              \<and> impl zi = (impl losAngelesEvent)\<lparr>epochNanoseconds := i\<rparr>
              \<and> priv_timeZone zi = icalLosAngeles \<and> isIANA zi"
proof -
  from iana_at_instant [OF losAngelesEvent_constructed la_iana la_canon assms]
  obtain zi where z: "new_ZonedDateTime sampleHost i icalLosAngeles
        (Some (calendarId (impl losAngelesEvent))) = Inr zi"
    "impl zi = (impl losAngelesEvent)\<lparr>epochNanoseconds := i\<rparr>"
    "priv_timeZone zi = icalLosAngeles" by blast
  have "isIANA zi"
    using iana_same_zone(1) [OF losAngelesEvent_constructed z(1) la_canon] la_iana by simp
  moreover have "calendarId (impl losAngelesEvent) = ''iso8601''" by (simp add: losAngelesEvent_def)
  ultimately show ?thesis using z by auto
qed

lemma add_iana_engine:
  assumes "isIANA z"
  shows "add h z d options =
      (case Temporal_add (impl z) d options of
         Inl e \<Rightarrow> Inl e
       | Inr t \<Rightarrow> new_ZonedDateTime h (epochNanoseconds t) (priv_timeZone z)
                    (Some (calendarId (impl z))))"
  using assms by (subst add.simps) simp

lemma isoFieldsOf_15369:
  "isoFieldsOf 15369 =
     \<lparr>f_era = None, f_eraYear = None, f_year = 2012, f_month = 1, f_monthCode = ''M01'',
      f_day = 30\<rparr>"
  by code_simp

lemma la_impl_at:
  "Temporal_toPlainDateTime ((impl losAngelesEvent)\<lparr>epochNanoseconds := 1327993200000000000\<rparr>)
     = \<lparr>wallNs = 1327964400000000000, pdtCalendarId = ''iso8601'', pdtCal = iso8601\<rparr>"
  "Temporal_toPlainDateTime ((impl losAngelesEvent)\<lparr>epochNanoseconds := 1328000400000000000\<rparr>)
     = \<lparr>wallNs = 1327971600000000000, pdtCalendarId = ''iso8601'', pdtCal = iso8601\<rparr>"
  by (simp_all add: losAngelesEvent_def Temporal_toPlainDateTime_def
      Temporal_offsetNanoseconds_def getOffsetNanosecondsFor_def los_angeles_def)

lemma la_plain_add:
  "Plain_add_date \<lparr>wallNs = 1327964400000000000, pdtCalendarId = ''iso8601'', pdtCal = iso8601\<rparr>
      0 1 0 0 None
     = Inr \<lparr>wallNs = 1330556400000000000, pdtCalendarId = ''iso8601'', pdtCal = iso8601\<rparr>"
  "Plain_add_date \<lparr>wallNs = 1327971600000000000, pdtCalendarId = ''iso8601'', pdtCal = iso8601\<rparr>
      0 1 0 0 None
     = Inr \<lparr>wallNs = 1330477200000000000, pdtCalendarId = ''iso8601'', pdtCal = iso8601\<rparr>"
  by (simp_all add: Plain_add_date_def iso8601_def nsPerDay_def pdt_in_range_def nsMaxInstant_def
      isoDateAdd_15369 isoDateAdd_15370)

lemma la_zone: "zone (impl losAngelesEvent) = los_angeles"
  by (simp add: losAngelesEvent_def)

lemma add_order_matters:
  "\<exists>z r1 r2.
     new_ZonedDateTime sampleHost 1327993200000000000 icalLosAngeles (Some ''iso8601'') = Inr z
     \<and> wallClockFields z = ((None, None, 2012, 1, ''M01'', 30), (23, 0, 0, 0, 0, 0))
     \<and> add sampleHost z oneMonthTwoHours None = Inr r1
     \<and> add_time_first sampleHost z oneMonthTwoHours None = Inr r2
     \<and> toInstant r1 = 1330592400000000000
     \<and> toInstant r2 = 1330506000000000000"
proof -
  have r0: "\<not> ((1327993200000000000::int) < - nsMaxInstant \<or> nsMaxInstant < 1327993200000000000)"
    and r1: "\<not> ((1330592400000000000::int) < - nsMaxInstant \<or> nsMaxInstant < 1330592400000000000)"
    and r2: "\<not> ((1328000400000000000::int) < - nsMaxInstant \<or> nsMaxInstant < 1328000400000000000)"
    and r3: "\<not> ((1330506000000000000::int) < - nsMaxInstant \<or> nsMaxInstant < 1330506000000000000)"
    by (simp_all add: nsMaxInstant_def)
  have cid: "calendarId (impl losAngelesEvent) = ''iso8601''" by (simp add: losAngelesEvent_def)
  from la_at_instant [OF r0] obtain z where
    z: "new_ZonedDateTime sampleHost 1327993200000000000 icalLosAngeles (Some ''iso8601'') = Inr z"
       "impl z = (impl losAngelesEvent)\<lparr>epochNanoseconds := 1327993200000000000\<rparr>"
       "priv_timeZone z = icalLosAngeles" "isIANA z" by blast
  from la_at_instant [OF r1] obtain res1 where
    res1: "new_ZonedDateTime sampleHost 1330592400000000000 icalLosAngeles (Some ''iso8601'') = Inr res1"
    by blast
  from la_at_instant [OF r2] obtain sh where
    sh: "new_ZonedDateTime sampleHost 1328000400000000000 icalLosAngeles (Some ''iso8601'') = Inr sh"
       "impl sh = (impl losAngelesEvent)\<lparr>epochNanoseconds := 1328000400000000000\<rparr>"
       "priv_timeZone sh = icalLosAngeles" "isIANA sh" by blast
  from la_at_instant [OF r3] obtain res2 where
    res2: "new_ZonedDateTime sampleHost 1330506000000000000 icalLosAngeles (Some ''iso8601'') = Inr res2"
    by blast
  \<comment> \<open>the wall-clock reading of the start: 2012-01-30T23:00\<close>
  have off: "offsetNanoseconds sampleHost z = - 28800000000000"
    using z(4) by (simp add: offsetNanoseconds_def z(2) losAngelesEvent_def
        Temporal_offsetNanoseconds_def getOffsetNanosecondsFor_def los_angeles_def)
  have "wallClockFields z = decompose (cal (impl z)) (toInstant z + offsetNanoseconds sampleHost z)"
    using wallClockFields_of_pdt [OF z(1)] by (auto simp: toInstant_def)
  then have f: "wallClockFields z = ((None, None, 2012, 1, ''M01'', 30), (23, 0, 0, 0, 0, 0))"
    by (simp add: off toInstant_def z(2) losAngelesEvent_def decompose_def Let_def iso8601_def
        pdt_date_def pdt_hour_def pdt_minute_def pdt_second_def pdt_millisecond_def
        pdt_microsecond_def pdt_nanosecond_def nsPerDay_def isoFieldsOf_15369)
  \<comment> \<open>calendar units first, as the method does\<close>
  have ta: "Temporal_add ((impl losAngelesEvent)\<lparr>epochNanoseconds := 1327993200000000000\<rparr>)
              oneMonthTwoHours None
              = Inr ((impl losAngelesEvent)\<lparr>epochNanoseconds := 1330592400000000000\<rparr>)"
    by (simp add: Temporal_add_def oneMonthTwoHours_def la_impl_at la_plain_add la_zone
        disambiguate_la_1 nsMaxInstant_def Temporal_addInstant_def timeNs_def)
  have a1: "add sampleHost z oneMonthTwoHours None = Inr res1"
    using res1 by (simp add: add_iana_engine [OF z(4)] ta z(2,3) cid)
  \<comment> \<open>time units first\<close>
  have s1: "instantShift sampleHost z (timeNs oneMonthTwoHours) = Inr sh"
    using sh(1)
    by (simp add: instantShift_def Temporal_addInstant_def z(2,3) timeNs_def oneMonthTwoHours_def
        nsMaxInstant_def cid)
  have tps: "toPlainDateTime sampleHost sh
               = Inr \<lparr>wallNs = 1327971600000000000, pdtCalendarId = ''iso8601'', pdtCal = iso8601\<rparr>"
    using sh(4) by (simp add: toPlainDateTime_def sh(2) la_impl_at)
  have zsh: "zone (impl sh) = los_angeles" by (simp add: sh(2) la_zone)
  have c2: "calendarPhase sampleHost sh oneMonthTwoHours None = Inr res2"
    using res2
    by (simp add: calendarPhase_def tps oneMonthTwoHours_def la_plain_add sh(3)
        fromPlainDateTime_iana [OF sh(1) sh(4) la_nonempty] zsh disambiguate_la_2 nsMaxInstant_def)
  have a2: "add_time_first sampleHost z oneMonthTwoHours None = Inr res2"
    by (simp add: add_time_first_def s1 c2)
  have i1: "toInstant res1 = 1330592400000000000"
    using new_ZonedDateTime_instant [OF res1] by (simp add: toInstant_def)
  have i2: "toInstant res2 = 1330506000000000000"
    using new_ZonedDateTime_instant [OF res2] by (simp add: toInstant_def)
  show ?thesis using z(1) f a1 a2 i1 i2 by blast
qed

subsection \<open>A rule-based zone with a name the engine does not know\<close>

text \<open>
  \<^verbatim>\<open>fromPlainDateTime\<close> hands every non-empty \<^verbatim>\<open>tzid\<close> to the engine; when the engine does
  not know the name, the methods that go through \<^verbatim>\<open>fromPlainDateTime\<close> raise the
  engine's error.
\<close>

lemma fromPlainDateTime_callers_raise:
  assumes c: "new_ZonedDateTime h epochNs tz calendarArg = Inr z"
    and n: "tzid tz = Some (a # as)"
    and u: "lookupTimeZone h (a # as) = Inl e"
  shows "startOfDay h z = Inl e" and "withPlainTime h z time = Inl e"
    and "\<not> isIANA z \<and> \<not> (years d = 0 \<and> months d = 0 \<and> weeks d = 0 \<and> days d = 0)
         \<and> validDuration d \<longrightarrow> (\<exists>e'. add h z d options = Inl e')"
proof -
  note p = new_ZonedDateTime_private [OF c]
  from new_ZonedDateTime_fields [OF c] obtain pdt where pd: "toPlainDateTime h z = Inr pdt"
    by blast
  note f = fromPlainDateTime_unknown_name [OF n u]
  show "startOfDay h z = Inl e" by (simp add: startOfDay_def pd p(1) f)
  show "withPlainTime h z time = Inl e" by (simp add: withPlainTime_def pd p(1) f)
  show "\<not> isIANA z \<and> \<not> (years d = 0 \<and> months d = 0 \<and> weeks d = 0 \<and> days d = 0)
         \<and> validDuration d \<longrightarrow> (\<exists>e'. add h z d options = Inl e')"
  proof (intro impI, elim conjE)
    assume rb: "\<not> isIANA z"
      and nz: "\<not> (years d = 0 \<and> months d = 0 \<and> weeks d = 0 \<and> days d = 0)"
      and v: "validDuration d"
    from nz have cz: "(years d = 0 \<and> months d = 0 \<and> weeks d = 0 \<and> days d = 0) = False"
      by blast
    show "\<exists>e'. add h z d options = Inl e'"
      by (simp add: add_rule_based [OF rb nz v] add_two_phase_def cz calendarPhase_def pd p(1) f
          split: sum.splits)
  qed
qed

subsection \<open>until, in the numbers of a Duration\<close>






subsection \<open>The offset of a rule-based zone\<close>

text \<open>
  For an IANA zone the getter returns the offset of the zone's rules at the Instant. For
  a rule-based zone it asks the \<^verbatim>\<open>ICAL.Timezone\<close> for the local time that \<^verbatim>\<open>convertToZone\<close>
  made of the Instant. The zone of the script's second event answers -07:00 from the
  start of its \<^verbatim>\<open>VTIMEZONE\<close>, 1601-01-01T00:00 local time, which is 07:00Z, and 0 for
  an Instant before 1601-01-01T00:00Z, where the component says nothing. The object of
  the third event agrees with its \<^verbatim>\<open>VTIMEZONE\<close> when it is asked with the local time that
  the rules give for an Instant, for every Instant before 2012-11-04T09:00Z, where the
  hour that is repeated begins for the second time.
\<close>

lemma offsetNanoseconds_iana:
  assumes c: "new_ZonedDateTime h epochNs tz calendarArg = Inr z" and i: "isIANA z"
  shows "\<exists>ident rules. tzid tz = Some ident \<and> lookupTimeZone h ident = Inr rules \<and>
           offsetNanoseconds h z = getOffsetNanosecondsFor rules (toInstant z)"
proof -
  note p = new_ZonedDateTime_private [OF c]
  from i p(2) obtain ident where id: "tzid tz = Some ident" by blast
  with i p(3) have t: "Temporal_ZonedDateTime h epochNs ident
      (case calendarArg of None \<Rightarrow> ''iso8601'' | Some c \<Rightarrow> c) = Inr (impl z)" by simp
  have "offsetNanoseconds h z = getOffsetNanosecondsFor (zone (impl z)) (toInstant z)"
    using i by (simp add: offsetNanoseconds_def Temporal_offsetNanoseconds_def toInstant_def)
  with id Temporal_ZonedDateTime_slots(3) [OF t] show ?thesis by blast
qed

lemma offsetNanoseconds_constant_zone:
  assumes c: "new_ZonedDateTime h epochNs tz calendarArg = Inr z" and i: "\<not> isIANA z"
    and k: "\<forall>t. utcOffset tz t = k"
  shows "offsetNanoseconds h z = k * 1000000000"
  using i k new_ZonedDateTime_private(1) [OF c] by (simp add: offsetNanoseconds_def)

lemma mountain_not_iana:
  assumes c: "new_ZonedDateTime sampleHost epochNs usMountainStandardTime calendarArg = Inr z"
  shows "\<not> isIANA z"
  using new_ZonedDateTime_private(2) [OF c]
  by (simp add: usMountainStandardTime_def sampleHost_def)

lemma offsetNanoseconds_mountain_since_1601:
  assumes c: "new_ZonedDateTime sampleHost epochNs usMountainStandardTime calendarArg = Inr z"
    and e: "- 11644448400000000000 \<le> epochNs"
  shows "offsetNanoseconds sampleHost z = - 7 * 3600 * 1000000000"
proof -
  note p = new_ZonedDateTime_private [OF c]
  have i: "epochNanoseconds (impl z) = epochNs" by (rule new_ZonedDateTime_instant [OF c])
  have "- 11644448400000000000 div 1000000000 \<le> epochNs div 1000000000"
    using e by (rule zdiv_mono1) simp
  then have s: "- 11644448400 \<le> epochNs div 1000000000" by simp
  have o: "offsetNanoseconds sampleHost z =
      utcOffset usMountainStandardTime
        (epochNs div 1000000000 + utcOffset usMountainStandardTime (epochNs div 1000000000))
      * 1000000000"
    using mountain_not_iana [OF c] p(1) i
    by (simp add: offsetNanoseconds_def Temporal_epochMilliseconds_def ms_then_s sampleHost_def
        Let_def)
  show ?thesis unfolding o using s by (simp add: usMountainStandardTime_def)
qed

lemma offsetNanoseconds_mountain_before_1601:
  assumes c: "new_ZonedDateTime sampleHost epochNs usMountainStandardTime calendarArg = Inr z"
    and e: "epochNs < - 11644473600000000000"
  shows "offsetNanoseconds sampleHost z = 0"
proof -
  note p = new_ZonedDateTime_private [OF c]
  have i: "epochNanoseconds (impl z) = epochNs" by (rule new_ZonedDateTime_instant [OF c])
  have s: "epochNs div 1000000000 < - 11644473600" using e by linarith
  have o: "offsetNanoseconds sampleHost z =
      utcOffset usMountainStandardTime
        (epochNs div 1000000000 + utcOffset usMountainStandardTime (epochNs div 1000000000))
      * 1000000000"
    using mountain_not_iana [OF c] p(1) i
    by (simp add: offsetNanoseconds_def Temporal_epochMilliseconds_def ms_then_s sampleHost_def
        Let_def)
  show ?thesis unfolding o using s by (simp add: usMountainStandardTime_def)
qed

lemma mountainEvent_offsetNanoseconds:
  "offsetNanoseconds sampleHost mountainEvent = - 7 * 3600 * 1000000000"
  by (rule offsetNanoseconds_mountain_since_1601 [OF mountainEvent_constructed]) simp

lemma getPossibleInstantsFor_gap:
  "getPossibleInstantsFor los_angeles 1331433000000000000 = []"
  by code_simp

lemma pacificRules_los_angeles: "pacificRules = los_angeles"
  by (simp add: pacificRules_def los_angeles_def)

lemma pacific_object_reports_rules:
  assumes "t < 1352019600"
  shows "utcOffset pacificStandardTime
           ((t * 1000000000 + getOffsetNanosecondsFor pacificRules (t * 1000000000))
              div 1000000000) * 1000000000
         = getOffsetNanosecondsFor pacificRules (t * 1000000000)"
proof (cases "t < 1331460000")
  case True
  then have o: "getOffsetNanosecondsFor pacificRules (t * 1000000000) = - 28800 * 1000000000"
    by (simp add: getOffsetNanosecondsFor_def pacificRules_def)
  have "(t * 1000000000 + - 28800 * 1000000000) div 1000000000 = t - 28800"
    by (simp add: algebra_simps flip: distrib_right)
  then show ?thesis unfolding o using True by (simp add: pacificStandardTime_def)
next
  case False
  then have o: "getOffsetNanosecondsFor pacificRules (t * 1000000000) = - 25200 * 1000000000"
    using assms by (simp add: getOffsetNanosecondsFor_def pacificRules_def)
  have "(t * 1000000000 + - 25200 * 1000000000) div 1000000000 = t - 25200"
    by (simp add: algebra_simps flip: distrib_right)
  then show ?thesis unfolding o using False assms by (simp add: pacificStandardTime_def)
qed

subsection \<open>The claims\<close>

text \<open>
  C10. For every ZonedDateTime, of an IANA zone or of a rule-based one, \<^verbatim>\<open>valueOf()\<close>
  throws a TypeError: the result is the error for every receiver, never a value, so the
  object cannot be coerced to a primitive.
\<close>

theorem valueOf_always_TypeError: "valueOf this = Inl TypeError"
  by (simp add: valueOf_def)

text \<open>
  C9. For every object \<open>z\<close> the constructor returns, \<^verbatim>\<open>z.toPlainDateTime()\<close> succeeds and
  the twelve wall-clock fields stored on \<open>z\<close> (era, eraYear, year, month, monthCode, day,
  hour, minute, second, millisecond, microsecond, nanosecond) are the fields of that
  PlainDateTime. No method of the class assigns to a field after the constructor, and
  the methods of the model return new values and leave \<open>z\<close> as it is, so the agreement
  holds for as long as the value exists.
\<close>

theorem stored_fields_are_toPlainDateTime:
  assumes "new_ZonedDateTime h epochNs tz calendarArg = Inr z"
  shows "\<exists>pdt. toPlainDateTime h z = Inr pdt \<and>
           era z = f_era (pdt_date pdt) \<and> eraYear z = f_eraYear (pdt_date pdt) \<and>
           year z = f_year (pdt_date pdt) \<and> month z = f_month (pdt_date pdt) \<and>
           monthCode z = f_monthCode (pdt_date pdt) \<and> day z = f_day (pdt_date pdt) \<and>
           hour z = pdt_hour pdt \<and> minute z = pdt_minute pdt \<and> second z = pdt_second pdt \<and>
           millisecond z = pdt_millisecond pdt \<and> microsecond z = pdt_microsecond pdt \<and>
           nanosecond z = pdt_nanosecond pdt"
  by (rule new_ZonedDateTime_fields [OF assms])

theorem stored_fields_are_toPlainDateTime_witness:
  "new_ZonedDateTime sampleHost 1671638400000000000 usMountainStandardTime None = Inr mountainEvent
   \<and> (\<exists>pdt. toPlainDateTime sampleHost mountainEvent = Inr pdt \<and>
           era mountainEvent = f_era (pdt_date pdt) \<and>
           eraYear mountainEvent = f_eraYear (pdt_date pdt) \<and>
           year mountainEvent = f_year (pdt_date pdt) \<and>
           month mountainEvent = f_month (pdt_date pdt) \<and>
           monthCode mountainEvent = f_monthCode (pdt_date pdt) \<and>
           day mountainEvent = f_day (pdt_date pdt) \<and>
           hour mountainEvent = pdt_hour pdt \<and> minute mountainEvent = pdt_minute pdt \<and>
           second mountainEvent = pdt_second pdt \<and>
           millisecond mountainEvent = pdt_millisecond pdt \<and>
           microsecond mountainEvent = pdt_microsecond pdt \<and>
           nanosecond mountainEvent = pdt_nanosecond pdt)
   \<and> year mountainEvent = 2022 \<and> month mountainEvent = 12 \<and> day mountainEvent = 21
   \<and> hour mountainEvent = 9 \<and> minute mountainEvent = 0"
proof -
  have f: "year mountainEvent = 2022 \<and> month mountainEvent = 12 \<and> day mountainEvent = 21
           \<and> hour mountainEvent = 9 \<and> minute mountainEvent = 0"
    by (simp add: mountainEvent_def)
  show ?thesis
    using stored_fields_are_toPlainDateTime [OF mountainEvent_constructed]
      mountainEvent_constructed f
    by blast
qed



text \<open>
  C5. For every constructed ZonedDateTime, the zone counts as IANA exactly when its
  \<^verbatim>\<open>tzid\<close> is among \<^verbatim>\<open>Intl.supportedValuesOf('timeZone')\<close>. When it is rule-based, each of
  \<^verbatim>\<open>toString\<close>, \<^verbatim>\<open>toJSON\<close> and \<^verbatim>\<open>toLocaleString\<close> raises the error \<^verbatim>\<open>not implemented\<close>, which
  is neither a TypeError nor a RangeError. When it is IANA, each returns what the engine
  returns for \<^verbatim>\<open>#impl\<close>. In both cases \<^verbatim>\<open>toJSON()\<close> is \<^verbatim>\<open>toString()\<close> without options.
\<close>

theorem serialisation_not_implemented_or_deferred:
  assumes "new_ZonedDateTime h epochNs tz calendarArg = Inr z"
  shows "(isIANA z = (\<exists>ident. tzid tz = Some ident \<and> ident \<in> set (supportedValuesOf_timeZone h)))
       \<and> (\<not> isIANA z \<longrightarrow>
             toString h z options = Inl (Error ''not implemented'')
           \<and> toJSON h z = Inl (Error ''not implemented'')
           \<and> toLocaleString h z locales options = Inl (Error ''not implemented''))
       \<and> (isIANA z \<longrightarrow>
             toString h z options = format_toString h (impl z) options
           \<and> toJSON h z = format_toString h (impl z) None
           \<and> toLocaleString h z locales options = format_toLocaleString h (impl z) locales options)
       \<and> toJSON h z = toString h z None
       \<and> Error ''not implemented'' \<noteq> TypeError \<and> Error ''not implemented'' \<noteq> RangeError"
proof -
  have "isIANA z = (\<exists>ident. tzid tz = Some ident \<and> ident \<in> set (supportedValuesOf_timeZone h))"
    by (rule new_ZonedDateTime_private(2) [OF assms])
  moreover have "\<not> isIANA z \<longrightarrow>
             toString h z options = Inl (Error ''not implemented'')
           \<and> toJSON h z = Inl (Error ''not implemented'')
           \<and> toLocaleString h z locales options = Inl (Error ''not implemented'')"
    by (simp add: toString_def toJSON_def toLocaleString_def)
  moreover have "isIANA z \<longrightarrow>
             toString h z options = format_toString h (impl z) options
           \<and> toJSON h z = format_toString h (impl z) None
           \<and> toLocaleString h z locales options = format_toLocaleString h (impl z) locales options"
    by (simp add: toString_def toJSON_def toLocaleString_def)
  moreover have "toJSON h z = toString h z None"
    by (simp add: toJSON_def)
  ultimately show ?thesis by simp
qed

theorem serialisation_not_implemented_or_deferred_witness:
  "new_ZonedDateTime sampleHost 1671638400000000000 usMountainStandardTime None = Inr mountainEvent
   \<and> \<not> isIANA mountainEvent
   \<and> toString sampleHost mountainEvent None = Inl (Error ''not implemented'')
   \<and> toJSON sampleHost mountainEvent = Inl (Error ''not implemented'')
   \<and> toLocaleString sampleHost mountainEvent None None = Inl (Error ''not implemented'')
   \<and> new_ZonedDateTime sampleHost 1347384600000000000 icalLosAngeles None = Inr losAngelesEvent
   \<and> isIANA losAngelesEvent
   \<and> toString sampleHost losAngelesEvent None = Inr ''[America/Los_Angeles]''
   \<and> toJSON sampleHost losAngelesEvent = toString sampleHost losAngelesEvent None
   \<and> toLocaleString sampleHost losAngelesEvent None None = Inr ''[America/Los_Angeles]''"
proof -
  have a: "\<not> isIANA mountainEvent" by (simp add: mountainEvent_def)
  have b: "isIANA losAngelesEvent" by (simp add: losAngelesEvent_def)
  have c: "format_toString sampleHost (impl losAngelesEvent) None = Inr ''[America/Los_Angeles]''"
    by (simp add: sampleHost_def losAngelesEvent_def)
  have d: "format_toLocaleString sampleHost (impl losAngelesEvent) None None
             = Inr ''[America/Los_Angeles]''"
    by (simp add: sampleHost_def losAngelesEvent_def)
  show ?thesis
    using serialisation_not_implemented_or_deferred [OF mountainEvent_constructed, of None None]
      serialisation_not_implemented_or_deferred [OF losAngelesEvent_constructed, of None None]
      a b c d mountainEvent_constructed losAngelesEvent_constructed
    by simp
qed

text \<open>
  C7, as the claim states it: when either operand is of a rule-based zone, \<^verbatim>\<open>equals\<close> fails
  with a TypeError. It does not: on the object of the script's second event, of the
  rule-based zone US Mountain Standard Time, \<^verbatim>\<open>equals\<close> raises the plain error
  \<^verbatim>\<open>not implemented\<close>, which is not a TypeError.
\<close>

theorem equals_rule_based_counterexample:
  "new_ZonedDateTime sampleHost 1671638400000000000 usMountainStandardTime None = Inr mountainEvent
   \<and> \<not> isIANA mountainEvent
   \<and> equals mountainEvent mountainEvent = Inl (Error ''not implemented'')
   \<and> equals mountainEvent mountainEvent \<noteq> Inl TypeError"
  using mountainEvent_constructed by (simp add: equals_def mountainEvent_def)

text \<open>
  C7, amended. For constructed operands, \<^verbatim>\<open>equals(other)\<close> is defined when both time zones
  are IANA: it compares the Instant, the zone identifier and the calendar identifier.
  When either zone is rule-based it fails with the error \<^verbatim>\<open>not implemented\<close>, a plain
  Error that is neither a TypeError nor a RangeError, and returns no answer.
\<close>

theorem equals_iana_or_not_implemented:
  assumes "new_ZonedDateTime h ns1 tz1 c1 = Inr a"
      and "new_ZonedDateTime h ns2 tz2 c2 = Inr b"
  shows "equals a b =
           (if isIANA a \<and> isIANA b
            then Inr (toInstant a = toInstant b \<and> tzid tz1 = tzid tz2
                      \<and> calendarId (impl a) = calendarId (impl b))
            else Inl (Error ''not implemented''))
       \<and> Error ''not implemented'' \<noteq> TypeError \<and> Error ''not implemented'' \<noteq> RangeError"
proof -
  note pa = new_ZonedDateTime_private [OF assms(1)] and pb = new_ZonedDateTime_private [OF assms(2)]
  have "timeZoneId (impl a) = timeZoneId (impl b) \<longleftrightarrow> tzid tz1 = tzid tz2"
    if "isIANA a" "isIANA b"
  proof -
    from that pa(2) pb(2) obtain i1 i2 where i: "tzid tz1 = Some i1" "tzid tz2 = Some i2" by blast
    have "timeZoneId (impl a) = i1" "timeZoneId (impl b) = i2"
      using Temporal_ZonedDateTime_slots(2) [OF pa(3)] Temporal_ZonedDateTime_slots(2) [OF pb(3)]
        that i by simp_all
    then show ?thesis using i by simp
  qed
  then show ?thesis
    by (auto simp: equals_def Temporal_equals_def toInstant_def)
qed

theorem equals_iana_or_not_implemented_witness:
  "new_ZonedDateTime sampleHost 1347384600000000000 icalLosAngeles None = Inr losAngelesEvent
   \<and> new_ZonedDateTime sampleHost 1671638400000000000 usMountainStandardTime None = Inr mountainEvent
   \<and> equals losAngelesEvent losAngelesEvent = Inr True
   \<and> equals losAngelesEvent mountainEvent = Inl (Error ''not implemented'')
   \<and> equals mountainEvent losAngelesEvent = Inl (Error ''not implemented'')"
proof -
  have a: "\<not> isIANA mountainEvent" by (simp add: mountainEvent_def)
  have b: "isIANA losAngelesEvent" by (simp add: losAngelesEvent_def)
  show ?thesis
    using equals_iana_or_not_implemented [OF losAngelesEvent_constructed losAngelesEvent_constructed]
      equals_iana_or_not_implemented [OF losAngelesEvent_constructed mountainEvent_constructed]
      equals_iana_or_not_implemented [OF mountainEvent_constructed losAngelesEvent_constructed]
      a b mountainEvent_constructed losAngelesEvent_constructed
    by simp
qed




text \<open>
  C8. For every constructed ZonedDateTime \<open>z\<close>, every time zone and every calendar:
  whatever \<^verbatim>\<open>withCalendar\<close> and \<^verbatim>\<open>withTimeZone\<close> return has the \<^verbatim>\<open>epochNanoseconds\<close> of \<open>z\<close>,
  with the calendar, respectively the time zone, swapped and the other capability kept.
  \<^verbatim>\<open>withCalendar\<close> does return a new instance for every calendar the engine knows, and
  \<^verbatim>\<open>withTimeZone\<close> for every IANA zone the engine knows. Both are functions of \<open>z\<close> that
  build a new object with the constructor; \<open>z\<close> itself is not changed.
\<close>

theorem with_capability_keeps_instant:
  assumes "new_ZonedDateTime h epochNs tz calendarArg = Inr z"
  shows "(\<forall>z'. withCalendar h z c1 = Inr z' \<longrightarrow>
            get_epochNanoseconds z' = get_epochNanoseconds z
            \<and> priv_timeZone z' = priv_timeZone z \<and> calendar z' = c1)
       \<and> (\<forall>z'. withTimeZone h z tz1 = Inr z' \<longrightarrow>
            get_epochNanoseconds z' = get_epochNanoseconds z \<and> priv_timeZone z' = tz1)
       \<and> (calendars h c1 \<noteq> None \<longrightarrow> (\<exists>z'. withCalendar h z c1 = Inr z'))
       \<and> (calendars h (calendarId (impl z)) \<noteq> None
            \<and> (\<exists>ident rules. tzid tz1 = Some ident \<and> ident \<in> set (supportedValuesOf_timeZone h)
                   \<and> lookupTimeZone h ident = Inr rules)
            \<longrightarrow> (\<exists>z'. withTimeZone h z tz1 = Inr z'))"
proof -
  have a: "get_epochNanoseconds z' = get_epochNanoseconds z
            \<and> priv_timeZone z' = priv_timeZone z \<and> calendar z' = c1"
    if "withCalendar h z c1 = Inr z'" for z'
    using that new_ZonedDateTime_instant [of h _ _ _ z']
      new_ZonedDateTime_private(1,4) [of h _ _ _ z']
    by (simp add: withCalendar_def get_epochNanoseconds_def)
  have b: "get_epochNanoseconds z' = get_epochNanoseconds z \<and> priv_timeZone z' = tz1"
    if "withTimeZone h z tz1 = Inr z'" for z'
    using that new_ZonedDateTime_instant [of h _ _ _ z']
      new_ZonedDateTime_private(1) [of h _ _ _ z']
    by (simp add: withTimeZone_def get_epochNanoseconds_def)
  have c: "\<exists>z'. withCalendar h z c1 = Inr z'" if "calendars h c1 \<noteq> None"
    using that withCalendar_succeeds [OF assms] by blast
  have d: "\<exists>z'. withTimeZone h z tz1 = Inr z'"
    if "calendars h (calendarId (impl z)) \<noteq> None"
      "\<exists>ident rules. tzid tz1 = Some ident \<and> ident \<in> set (supportedValuesOf_timeZone h)
                   \<and> lookupTimeZone h ident = Inr rules"
    using that withTimeZone_succeeds [OF assms] by blast
  show ?thesis using a b c d by blast
qed

theorem with_capability_keeps_instant_witness:
  "new_ZonedDateTime sampleHost 1671638400000000000 usMountainStandardTime None = Inr mountainEvent
   \<and> get_epochNanoseconds mountainEvent = 1671638400000000000
   \<and> calendars sampleHost ''gregory'' \<noteq> None
   \<and> (\<exists>z'. withCalendar sampleHost mountainEvent ''gregory'' = Inr z'
          \<and> get_epochNanoseconds z' = 1671638400000000000
          \<and> priv_timeZone z' = priv_timeZone mountainEvent \<and> calendar z' = ''gregory'')
   \<and> (\<exists>z'. withTimeZone sampleHost mountainEvent icalLosAngeles = Inr z'
          \<and> get_epochNanoseconds z' = 1671638400000000000
          \<and> priv_timeZone z' = icalLosAngeles)"
proof -
  have e: "get_epochNanoseconds mountainEvent = 1671638400000000000"
    by (simp add: get_epochNanoseconds_def mountainEvent_def)
  have g: "calendars sampleHost ''gregory'' \<noteq> None" by (simp add: sampleHost_def)
  have i: "calendars sampleHost (calendarId (impl mountainEvent)) \<noteq> None"
    by (simp add: sampleHost_def mountainEvent_def)
  have l: "\<exists>ident rules. tzid icalLosAngeles = Some ident
             \<and> ident \<in> set (supportedValuesOf_timeZone sampleHost)
             \<and> lookupTimeZone sampleHost ident = Inr rules"
    by (simp add: icalLosAngeles_def sampleHost_def lookupTimeZone_def)
  note r = with_capability_keeps_instant
             [OF mountainEvent_constructed, of "''gregory''" icalLosAngeles]
  from r g obtain z1 where z1: "withCalendar sampleHost mountainEvent ''gregory'' = Inr z1"
    by blast
  from r i l obtain z2 where z2: "withTimeZone sampleHost mountainEvent icalLosAngeles = Inr z2"
    by blast
  from r z1 have p1: "get_epochNanoseconds z1 = get_epochNanoseconds mountainEvent
      \<and> priv_timeZone z1 = priv_timeZone mountainEvent \<and> calendar z1 = ''gregory''" by blast
  from r z2 have p2: "get_epochNanoseconds z2 = get_epochNanoseconds mountainEvent
      \<and> priv_timeZone z2 = icalLosAngeles" by blast
  show ?thesis
    using mountainEvent_constructed e g z1 z2 p1 p2 by auto
qed

text \<open>
  C3, on a failing input. The claim: for every ZonedDateTime \<open>z\<close>, of an IANA zone or of a
  rule-based one, \<^verbatim>\<open>z.offsetNanoseconds\<close> is the offset the time zone has at
  \<^verbatim>\<open>z.toInstant()\<close>. At the Instant 2012-03-11T09:30Z, half an hour before daylight time
  begins, the zone of the script's third event is at -08:00 and the local time is 01:30.
  The getter converts the UTC time 09:30 to the zone, which moves it by the -07:00 the
  zone answers for a local time of 09:30, and asks the zone for the offset at the
  result, 02:30: it returns -07:00. The object is built with the wall-clock reading
  02:30, which no Instant has in this zone. The IANA zone with the same rules, through
  the first branch of the getter, gives -08:00 and 01:30.
\<close>

theorem offsetNanoseconds_before_daylight_time:
  "new_ZonedDateTime sampleHost 1331458200000000000 pacificStandardTime None
     = Inr pacificBeforeTransition
   \<and> \<not> isIANA pacificBeforeTransition
   \<and> toInstant pacificBeforeTransition = 1331458200000000000
   \<and> Temporal_epochMilliseconds (impl pacificBeforeTransition) div 1000 = 1331458200
   \<and> convertToZone sampleHost (fromUnixTime sampleHost 1331458200) pacificStandardTime
       = 1331433000
   \<and> utcOffset pacificStandardTime 1331433000 = - 25200
   \<and> offsetNanoseconds sampleHost pacificBeforeTransition = - 25200000000000
   \<and> getOffsetNanosecondsFor pacificRules (toInstant pacificBeforeTransition)
       = - 28800000000000
   \<and> offsetNanoseconds sampleHost pacificBeforeTransition
       \<noteq> getOffsetNanosecondsFor pacificRules (toInstant pacificBeforeTransition)
   \<and> utcOffset pacificStandardTime (1331458200 - 28800) = - 28800
   \<and> day pacificBeforeTransition = 11 \<and> hour pacificBeforeTransition = 2
   \<and> minute pacificBeforeTransition = 30
   \<and> getPossibleInstantsFor pacificRules 1331433000000000000 = []
   \<and> new_ZonedDateTime sampleHost 1331458200000000000 icalLosAngeles None
       = Inr losAngelesBeforeTransition
   \<and> isIANA losAngelesBeforeTransition
   \<and> offsetNanoseconds sampleHost losAngelesBeforeTransition = - 28800000000000
   \<and> hour losAngelesBeforeTransition = 1 \<and> minute losAngelesBeforeTransition = 30"
proof -
  have a: "\<not> isIANA pacificBeforeTransition" "toInstant pacificBeforeTransition = 1331458200000000000"
    "Temporal_epochMilliseconds (impl pacificBeforeTransition) div 1000 = 1331458200"
    by (simp_all add: pacificBeforeTransition_def toInstant_def Temporal_epochMilliseconds_def)
  have b: "convertToZone sampleHost (fromUnixTime sampleHost 1331458200) pacificStandardTime
       = 1331433000"
    "utcOffset pacificStandardTime 1331433000 = - 25200"
    "utcOffset pacificStandardTime (1331458200 - 28800) = - 28800"
    by (simp_all add: sampleHost_def pacificStandardTime_def)
  have c: "offsetNanoseconds sampleHost pacificBeforeTransition = - 25200000000000"
    by (simp add: offsetNanoseconds_def Temporal_epochMilliseconds_def Let_def
        pacificBeforeTransition_def sampleHost_def pacificStandardTime_def)
  have d: "getOffsetNanosecondsFor pacificRules (toInstant pacificBeforeTransition)
       = - 28800000000000"
    unfolding a(2) by (simp add: getOffsetNanosecondsFor_def pacificRules_def)
  have e: "day pacificBeforeTransition = 11 \<and> hour pacificBeforeTransition = 2
   \<and> minute pacificBeforeTransition = 30"
    by (simp add: pacificBeforeTransition_def)
  have f: "getPossibleInstantsFor pacificRules 1331433000000000000 = []"
    unfolding pacificRules_los_angeles by (rule getPossibleInstantsFor_gap)
  have g: "isIANA losAngelesBeforeTransition" "hour losAngelesBeforeTransition = 1"
    "minute losAngelesBeforeTransition = 30"
    by (simp_all add: losAngelesBeforeTransition_def)
  have h: "offsetNanoseconds sampleHost losAngelesBeforeTransition = - 28800000000000"
    by (simp add: offsetNanoseconds_def Temporal_offsetNanoseconds_def getOffsetNanosecondsFor_def
        losAngelesBeforeTransition_def los_angeles_def)
  show ?thesis
    using pacificBeforeTransition_constructed losAngelesBeforeTransition_constructed
      a b c d e f g h
    by simp
qed

text \<open>
  C6, on a failing input. The claim: for every ZonedDateTime \<open>z\<close>, \<^verbatim>\<open>z.startOfDay()\<close> returns a
  new ZonedDateTime on the calendar date of \<open>z\<close>, the reading 00:00 resolved with
  compatible disambiguation to one Instant. On the object of the script's second event,
  of the rule-based zone with the \<^verbatim>\<open>tzid\<close> US Mountain Standard Time, \<^verbatim>\<open>startOfDay()\<close>
  returns no ZonedDateTime: \<^verbatim>\<open>fromPlainDateTime\<close> finds the \<^verbatim>\<open>tzid\<close> truthy, passes it to
  the engine's \<^verbatim>\<open>toZonedDateTime\<close>, and the engine, which knows no zone of that name,
  raises a range error.
\<close>

theorem startOfDay_named_rule_based_zone:
  "new_ZonedDateTime sampleHost 1671638400000000000 usMountainStandardTime None = Inr mountainEvent
   \<and> \<not> isIANA mountainEvent
   \<and> tzid (priv_timeZone mountainEvent) = Some ''US Mountain Standard Time''
   \<and> toPlainDateTime sampleHost mountainEvent
       = Inr \<lparr>wallNs = 1671613200000000000, pdtCalendarId = ''iso8601'', pdtCal = iso8601\<rparr>
   \<and> Plain_withPlainTime
         \<lparr>wallNs = 1671613200000000000, pdtCalendarId = ''iso8601'', pdtCal = iso8601\<rparr> 0
       = \<lparr>wallNs = 1671580800000000000, pdtCalendarId = ''iso8601'', pdtCal = iso8601\<rparr>
   \<and> fromPlainDateTime sampleHost
         \<lparr>wallNs = 1671580800000000000, pdtCalendarId = ''iso8601'', pdtCal = iso8601\<rparr>
         usMountainStandardTime (Some Compatible)
       = Inl RangeError
   \<and> startOfDay sampleHost mountainEvent = Inl RangeError"
proof -
  have a: "\<not> isIANA mountainEvent" by (simp add: mountainEvent_def)
  have b: "priv_timeZone mountainEvent = usMountainStandardTime" by (simp add: mountainEvent_def)
  have m: "Plain_withPlainTime
         \<lparr>wallNs = 1671613200000000000, pdtCalendarId = ''iso8601'', pdtCal = iso8601\<rparr> 0
       = \<lparr>wallNs = 1671580800000000000, pdtCalendarId = ''iso8601'', pdtCal = iso8601\<rparr>"
    by (simp add: Plain_withPlainTime_def nsPerDay_def)
  note f = fromPlainDateTime_unknown_name [OF mountain_tzid mountain_unknown]
  have "startOfDay sampleHost mountainEvent = Inl RangeError"
    by (simp add: startOfDay_def mountainEvent_toPlainDateTime b f)
  then show ?thesis
    using a b m f mountain_tzid mountainEvent_constructed mountainEvent_toPlainDateTime by simp
qed

text \<open>
  C1, on a failing input. The claim: for every ZonedDateTime \<open>z\<close> and every duration,
  \<^verbatim>\<open>z.add(d)\<close> applies the calendar units to the wall-clock reading, resolves the result
  with compatible disambiguation to an intermediate ZonedDateTime, then shifts its
  Instant by the time units. On the object of the script's second event, of the
  rule-based zone with the \<^verbatim>\<open>tzid\<close> US Mountain Standard Time, and the script's duration
  \<^verbatim>\<open>P1Y3DT2H30M\<close>, no intermediate value is produced: after the calendar units are
  added, \<^verbatim>\<open>fromPlainDateTime\<close> passes the \<^verbatim>\<open>tzid\<close> to the engine's \<^verbatim>\<open>toZonedDateTime\<close>, which
  raises a range error, and \<^verbatim>\<open>add\<close> raises it in turn.
\<close>

theorem add_scenario_D_named_rule_based_zone:
  "new_ZonedDateTime sampleHost 1671638400000000000 usMountainStandardTime None = Inr mountainEvent
   \<and> \<not> isIANA mountainEvent
   \<and> tzid (priv_timeZone mountainEvent) = Some ''US Mountain Standard Time''
   \<and> toPlainDateTime sampleHost mountainEvent
       = Inr \<lparr>wallNs = 1671613200000000000, pdtCalendarId = ''iso8601'', pdtCal = iso8601\<rparr>
   \<and> Plain_add_date
         \<lparr>wallNs = 1671613200000000000, pdtCalendarId = ''iso8601'', pdtCal = iso8601\<rparr>
         (years scenarioD) (months scenarioD) (weeks scenarioD) (days scenarioD) None
       = Inr \<lparr>wallNs = 1703408400000000000, pdtCalendarId = ''iso8601'', pdtCal = iso8601\<rparr>
   \<and> fromPlainDateTime sampleHost
         \<lparr>wallNs = 1703408400000000000, pdtCalendarId = ''iso8601'', pdtCal = iso8601\<rparr>
         usMountainStandardTime (Some Compatible)
       = Inl RangeError
   \<and> add sampleHost mountainEvent scenarioD None = Inl RangeError"
proof -
  have a: "\<not> isIANA mountainEvent" by (simp add: mountainEvent_def)
  have b: "priv_timeZone mountainEvent = usMountainStandardTime" by (simp add: mountainEvent_def)
  have p: "Plain_add_date
             \<lparr>wallNs = 1671613200000000000, pdtCalendarId = ''iso8601'', pdtCal = iso8601\<rparr>
             1 0 0 3 None
           = Inr \<lparr>wallNs = 1703408400000000000, pdtCalendarId = ''iso8601'', pdtCal = iso8601\<rparr>"
    by (simp add: Plain_add_date_def iso8601_def nsPerDay_def pdt_in_range_def nsMaxInstant_def
        isoDateAdd_19347)
  have p': "Plain_add_date
         \<lparr>wallNs = 1671613200000000000, pdtCalendarId = ''iso8601'', pdtCal = iso8601\<rparr>
         (years scenarioD) (months scenarioD) (weeks scenarioD) (days scenarioD) None
       = Inr \<lparr>wallNs = 1703408400000000000, pdtCalendarId = ''iso8601'', pdtCal = iso8601\<rparr>"
    using p by (simp add: scenarioD_def)
  note f = fromPlainDateTime_unknown_name [OF mountain_tzid mountain_unknown]
  have "add sampleHost mountainEvent scenarioD None = Inl RangeError"
    by (subst add.simps) (simp add: a b mountainEvent_toPlainDateTime scenarioD_def p f)
  then show ?thesis
    using a b p' f mountain_tzid mountainEvent_constructed mountainEvent_toPlainDateTime
    by simp
qed

end
